theory Spec2Isabelle
  imports Complex_Main "HOL-Library.Char_ord" "HOL-Library.List_Lexorder"
begin

section \<open>Numbers as the statistics script sees them\<close>

text \<open>
  The scripts compute with pandas and numpy scalars (64-bit floats). A value is a real
  number or one of the three special values that numpy produces instead of raising: a
  division of a numpy scalar by zero gives \<open>inf\<close>, \<open>-inf\<close> or \<open>nan\<close> (with a
  warning, never an exception), and every reduction of an empty pandas column gives
  \<open>nan\<close>. Comparisons with \<open>nan\<close> are false.

  The operations \<open>fadd\<close>, \<open>fsub\<close>, \<open>fmul\<close>, \<open>fdiv\<close> below give the exact
  result on numbers and the IEEE result on the special values. The scalar arithmetic of
  the comparison loop and of \<open>round\<close> is the float arithmetic itself: the exact result
  rounded to the nearest 64-bit float (\<open>binary64\<close>, further down). The reductions of
  a column (mean, median and so on) are kept in exact arithmetic, since the order in which
  pandas sums a column is not fixed by the scripts.
\<close>

datatype npfloat = Fin real | PInf | NInf | NaN

fun fneg :: "npfloat \<Rightarrow> npfloat" where
  "fneg (Fin a) = Fin (- a)"
| "fneg PInf = NInf"
| "fneg NInf = PInf"
| "fneg NaN = NaN"

fun fabs :: "npfloat \<Rightarrow> npfloat" where
  "fabs (Fin a) = Fin \<bar>a\<bar>"
| "fabs PInf = PInf"
| "fabs NInf = PInf"
| "fabs NaN = NaN"

fun fadd :: "npfloat \<Rightarrow> npfloat \<Rightarrow> npfloat" where
  "fadd (Fin a) (Fin b) = Fin (a + b)"
| "fadd NaN _ = NaN"
| "fadd _ NaN = NaN"
| "fadd PInf NInf = NaN"
| "fadd NInf PInf = NaN"
| "fadd PInf _ = PInf"
| "fadd _ PInf = PInf"
| "fadd NInf _ = NInf"
| "fadd _ NInf = NInf"

definition fsub :: "npfloat \<Rightarrow> npfloat \<Rightarrow> npfloat" where
  "fsub a b = fadd a (fneg b)"

text \<open>The sign of a value: \<open>1\<close>, \<open>-1\<close>, \<open>0\<close>; None for \<open>nan\<close>.\<close>

fun fsign :: "npfloat \<Rightarrow> int option" where
  "fsign (Fin a) = Some (if 0 < a then 1 else if a < 0 then - 1 else 0)"
| "fsign PInf = Some 1"
| "fsign NInf = Some (- 1)"
| "fsign NaN = None"

definition signed_inf :: "int \<Rightarrow> npfloat" where
  "signed_inf s = (if 0 < s then PInf else if s < 0 then NInf else NaN)"

fun fmul :: "npfloat \<Rightarrow> npfloat \<Rightarrow> npfloat" where
  "fmul (Fin a) (Fin b) = Fin (a * b)"
| "fmul NaN _ = NaN"
| "fmul _ NaN = NaN"
| "fmul a b = signed_inf (the (fsign a) * the (fsign b))"

text \<open>
  Division of numpy scalars. Every divisor in the scripts is an absolute value or a row
  count, so a zero divisor is the positive zero and the quotient takes the sign of the
  dividend.
\<close>

fun fdiv :: "npfloat \<Rightarrow> npfloat \<Rightarrow> npfloat" where
  "fdiv (Fin a) (Fin b) =
     (if b = 0 then (if 0 < a then PInf else if a < 0 then NInf else NaN) else Fin (a / b))"
| "fdiv NaN _ = NaN"
| "fdiv _ NaN = NaN"
| "fdiv (Fin a) _ = Fin 0"
| "fdiv a (Fin b) = signed_inf (the (fsign a) * (if b < 0 then - 1 else 1))"
| "fdiv _ _ = NaN"

fun fle :: "npfloat \<Rightarrow> npfloat \<Rightarrow> bool" where
  "fle (Fin a) (Fin b) = (a \<le> b)"
| "fle NaN _ = False"
| "fle _ NaN = False"
| "fle NInf _ = True"
| "fle _ PInf = True"
| "fle _ _ = False"

fun flt :: "npfloat \<Rightarrow> npfloat \<Rightarrow> bool" where
  "flt (Fin a) (Fin b) = (a < b)"
| "flt NaN _ = False"
| "flt _ NaN = False"
| "flt PInf _ = False"
| "flt _ NInf = False"
| "flt _ _ = True"

definition fge :: "npfloat \<Rightarrow> npfloat \<Rightarrow> bool" where
  "fge a b = fle b a"

definition fgt :: "npfloat \<Rightarrow> npfloat \<Rightarrow> bool" where
  "fgt a b = flt b a"

fun is_finite :: "npfloat \<Rightarrow> bool" where
  "is_finite (Fin a) = True"
| "is_finite _ = False"

text \<open>
  Rounding to the nearest integer, ties to the even one (the C function \<open>rint\<close>).
\<close>

definition rint :: "real \<Rightarrow> int" where
  "rint x =
     (let f = \<lfloor>x\<rfloor>; r = x - of_int f
      in if r < 1 / 2 then f else if 1 / 2 < r then f + 1 else if even f then f else f + 1)"

text \<open>
  The 64-bit float nearest to a real number (IEEE 754 binary64, round to nearest, ties to
  even). The exponent of a number is the one of its binade, and \<open>-1022\<close> for the
  subnormal numbers; the unit in the last place is 52 binary places below it; a result of
  magnitude \<open>2 ^ 1024\<close> or more overflows to an infinity. The sign of a zero is not
  kept: the only divisors that can be zero in the scripts are absolute values and counts.
\<close>

definition pow2 :: "int \<Rightarrow> real" where
  "pow2 k = (if 0 \<le> k then 2 ^ nat k else 1 / 2 ^ nat (- k))"

definition exponent :: "real \<Rightarrow> int" where
  "exponent x = max \<lfloor>log 2 \<bar>x\<bar>\<rfloor> (- 1022)"

definition binary64 :: "real \<Rightarrow> npfloat" where
  "binary64 x =
     (if x = 0 then Fin 0
      else let u = pow2 (exponent x - 52); y = of_int (rint (x / u)) * u
           in if 2 ^ 1024 \<le> \<bar>y\<bar> then (if 0 < x then PInf else NInf) else Fin y)"

text \<open>
  \<open>rnd\<close> makes a value a float: a number becomes the nearest float (a float stays as
  it is), a special value stays. A float operation is the exact operation followed by
  \<open>rnd\<close>.
\<close>

fun rnd :: "npfloat \<Rightarrow> npfloat" where
  "rnd (Fin a) = binary64 a"
| "rnd PInf = PInf"
| "rnd NInf = NInf"
| "rnd NaN = NaN"

definition float_sub :: "npfloat \<Rightarrow> npfloat \<Rightarrow> npfloat" where
  "float_sub a b = rnd (fsub a b)"

definition float_mul :: "npfloat \<Rightarrow> npfloat \<Rightarrow> npfloat" where
  "float_mul a b = rnd (fmul a b)"

definition float_div :: "npfloat \<Rightarrow> npfloat \<Rightarrow> npfloat" where
  "float_div a b = rnd (fdiv a b)"

fun frint :: "npfloat \<Rightarrow> npfloat" where
  "frint (Fin a) = Fin (of_int (rint a))"
| "frint PInf = PInf"
| "frint NInf = NInf"
| "frint NaN = NaN"

text \<open>
  \<open>round(d)\<close> of pandas is numpy's, three float operations: multiply by \<open>10 ^ d\<close>,
  \<open>rint\<close>, divide by \<open>10 ^ d\<close>. Special values pass through.
\<close>

definition fround :: "nat \<Rightarrow> npfloat \<Rightarrow> npfloat" where
  "fround d x = float_div (frint (float_mul (rnd x) (Fin (10 ^ d)))) (Fin (10 ^ d))"

section \<open>Step 3: statistics of a zone\<close>

text \<open>
  A table read from CSV, as far as \<open>calculate_stats\<close> looks at it: the \<open>velocity\<close>
  column (finite numbers) and the \<open>risk_level\<close> column when the table has one.
\<close>

record data =
  velocity :: "real list"
  risk_level :: "string list option"

datatype error = ZeroDivisionError

record risk_distribution =
  N_Stable :: nat
  N_Low_Risk :: nat
  N_Medium_Risk :: nat
  N_High_Risk :: nat
  Pct_High_Risk :: npfloat

text \<open>
  The statistics dictionary; its key \<open>Range\<close> is the field \<open>Range_Velocity\<close>, and the
  keys that exist only for a table with a risk-level column are the optional
  \<open>risk_counts\<close>.
\<close>

record stats =
  Infrastructure :: string
  N_Points :: nat
  Mean_Velocity :: npfloat
  Median_Velocity :: npfloat
  Std_Velocity :: npfloat
  Min_Velocity :: npfloat
  Max_Velocity :: npfloat
  Range_Velocity :: npfloat
  Pct_Subsiding :: npfloat
  Pct_Uplifting :: npfloat
  Pct_Stable :: npfloat
  risk_counts :: "risk_distribution option"

text \<open>The pandas reductions of a column: \<open>nan\<close> on an empty one.\<close>

definition mean :: "real list \<Rightarrow> npfloat" where
  "mean xs = (if xs = [] then NaN else Fin (sum_list xs / real (length xs)))"

definition median :: "real list \<Rightarrow> npfloat" where
  "median xs =
     (if xs = [] then NaN
      else let s = sort xs; n = length s
           in if odd n then Fin (s ! (n div 2))
              else Fin ((s ! (n div 2 - 1) + s ! (n div 2)) / 2))"

text \<open>The sample standard deviation (one degree of freedom removed), pandas' default.\<close>

definition std :: "real list \<Rightarrow> npfloat" where
  "std xs =
     (if length xs < 2 then NaN
      else let m = sum_list xs / real (length xs)
           in Fin (sqrt (sum_list (map (\<lambda>x. (x - m) ^ 2) xs) / real (length xs - 1))))"

definition min_col :: "real list \<Rightarrow> npfloat" where
  "min_col xs = (if xs = [] then NaN else Fin (Min (set xs)))"

definition max_col :: "real list \<Rightarrow> npfloat" where
  "max_col xs = (if xs = [] then NaN else Fin (Max (set xs)))"

text \<open>\<open>(mask).sum() / len(data) * 100\<close>: a numpy integer divided by the row count.\<close>

definition pct :: "(real \<Rightarrow> bool) \<Rightarrow> real list \<Rightarrow> npfloat" where
  "pct P xs = fmul (fdiv (Fin (real (length (filter P xs)))) (Fin (real (length xs)))) (Fin 100)"

text \<open>
  \<open>value_counts().get(label, 0)\<close>: the number of rows with that label. When no row has
  the label the result is the Python integer \<open>0\<close>, and dividing it by a row count of
  zero raises; that is the only raise of \<open>calculate_stats\<close>.
\<close>

definition count_label :: "string list \<Rightarrow> string \<Rightarrow> nat" where
  "count_label ls l = length (filter (\<lambda>x. x = l) ls)"

definition risk_distribution_of :: "string list \<Rightarrow> nat \<Rightarrow> error + risk_distribution" where
  "risk_distribution_of ls n =
     (let high = count_label ls ''High Risk''
      in if high = 0 \<and> n = 0 then Inl ZeroDivisionError
         else Inr \<lparr>N_Stable = count_label ls ''Stable'',
                   N_Low_Risk = count_label ls ''Low Risk'',
                   N_Medium_Risk = count_label ls ''Medium Risk'',
                   N_High_Risk = high,
                   Pct_High_Risk = fmul (fdiv (Fin (real high)) (Fin (real n))) (Fin 100)\<rparr>)"

definition calculate_stats :: "data \<Rightarrow> string \<Rightarrow> error + stats" where
  "calculate_stats d name =
     (let velocities = velocity d;
          st = \<lparr>Infrastructure = name,
                N_Points = length velocities,
                Mean_Velocity = mean velocities,
                Median_Velocity = median velocities,
                Std_Velocity = std velocities,
                Min_Velocity = min_col velocities,
                Max_Velocity = max_col velocities,
                Range_Velocity = fsub (max_col velocities) (min_col velocities),
                Pct_Subsiding = pct (\<lambda>v. v < 0) velocities,
                Pct_Uplifting = pct (\<lambda>v. 0 < v) velocities,
                Pct_Stable = pct (\<lambda>v. - 2 \<le> v \<and> v \<le> 2) velocities,
                risk_counts = None\<rparr>
      in case risk_level d of
           None \<Rightarrow> Inr st
         | Some ls \<Rightarrow>
             (case risk_distribution_of ls (length velocities) of
                Inl e \<Rightarrow> Inl e
              | Inr rd \<Rightarrow> Inr (st\<lparr>risk_counts := Some rd\<rparr>)))"

text \<open>
  The same function on a table whose velocity cells may be missing (an empty cell of the
  CSV, \<open>nan\<close> in the column): pandas skips a missing cell in every reduction, a
  comparison with it is false, and \<open>len(data)\<close> counts its row. On a table without
  missing cells this is \<open>calculate_stats\<close>.
\<close>

record table =
  cells :: "real option list"
  labels :: "string list option"

definition present :: "real option list \<Rightarrow> real list" where
  "present cs = concat (map (\<lambda>c. case c of None \<Rightarrow> [] | Some v \<Rightarrow> [v]) cs)"

definition pct_rows :: "(real \<Rightarrow> bool) \<Rightarrow> real list \<Rightarrow> nat \<Rightarrow> npfloat" where
  "pct_rows P xs n = fmul (fdiv (Fin (real (length (filter P xs)))) (Fin (real n))) (Fin 100)"

definition calculate_stats_cells :: "table \<Rightarrow> string \<Rightarrow> error + stats" where
  "calculate_stats_cells t name =
     (let velocities = present (cells t);
          n = length (cells t);
          st = \<lparr>Infrastructure = name,
                N_Points = n,
                Mean_Velocity = mean velocities,
                Median_Velocity = median velocities,
                Std_Velocity = std velocities,
                Min_Velocity = min_col velocities,
                Max_Velocity = max_col velocities,
                Range_Velocity = fsub (max_col velocities) (min_col velocities),
                Pct_Subsiding = pct_rows (\<lambda>v. v < 0) velocities n,
                Pct_Uplifting = pct_rows (\<lambda>v. 0 < v) velocities n,
                Pct_Stable = pct_rows (\<lambda>v. - 2 \<le> v \<and> v \<le> 2) velocities n,
                risk_counts = None\<rparr>
      in case labels t of
           None \<Rightarrow> Inr st
         | Some ls \<Rightarrow>
             (case risk_distribution_of ls n of
                Inl e \<Rightarrow> Inl e
              | Inr rd \<Rightarrow> Inr (st\<lparr>risk_counts := Some rd\<rparr>)))"

definition table_of :: "data \<Rightarrow> table" where
  "table_of d = \<lparr>cells = map Some (velocity d), labels = risk_level d\<rparr>"

section \<open>Step 3: risk assessment of a zone\<close>

record risk_row =
  Infrastructure_r :: string
  Mean_Velocity_mm_yr :: npfloat
  Max_Velocity_mm_yr :: npfloat
  Pct_Stable_r :: npfloat
  Risk_Level :: string
  Recommended_Action :: string

text \<open>The body of the risk loop, for one statistics record.\<close>

definition risk_assessment_row :: "stats \<Rightarrow> risk_row" where
  "risk_assessment_row st =
     (let name = Infrastructure st;
          mean_vel = fabs (Mean_Velocity st);
          max_vel = fabs (Max_Velocity st);
          pct_stable = Pct_Stable st;
          (risk, action) =
            (if fle mean_vel (Fin 2) \<and> fge pct_stable (Fin 95)
               then (''LOW'', ''Continue routine monitoring'')
             else if fle mean_vel (Fin 5) \<and> fge pct_stable (Fin 90)
               then (''MODERATE'', ''Increased monitoring recommended'')
             else (''ELEVATED'', ''Detailed investigation required''))
      in \<lparr>Infrastructure_r = name,
          Mean_Velocity_mm_yr = Mean_Velocity st,
          Max_Velocity_mm_yr = Max_Velocity st,
          Pct_Stable_r = Pct_Stable st,
          Risk_Level = risk,
          Recommended_Action = action\<rparr>)"

section \<open>Step 3: the script\<close>

record comparison_row =
  Infrastructure_c :: string
  Mean_Velocity_c :: npfloat
  Dublin_Baseline :: npfloat
  Difference :: npfloat
  Pct_Difference :: npfloat
  Assessment :: string

text \<open>
  The body of the comparison loop, for one statistics record and the baseline mean. The two
  means enter as the floats they are (\<open>rnd\<close>); the subtraction, the division and the
  multiplication are float operations.
\<close>

definition comparison_entry :: "npfloat \<Rightarrow> stats \<Rightarrow> comparison_row" where
  "comparison_entry dublin_mean st =
     (let name = Infrastructure st;
          diff = float_sub (rnd (Mean_Velocity st)) (rnd dublin_mean);
          pct_diff = float_mul (float_div diff (fabs (rnd dublin_mean))) (Fin 100);
          assessment =
            (if flt diff (Fin 0) then ''More stable (less subsidence)''
             else if fgt diff (Fin 0) then ''Less stable (more subsidence)''
             else ''Same as baseline'')
      in \<lparr>Infrastructure_c = name,
          Mean_Velocity_c = Mean_Velocity st,
          Dublin_Baseline = dublin_mean,
          Difference = diff,
          Pct_Difference = pct_diff,
          Assessment = assessment\<rparr>)"

text \<open>The rounding of the summary table's float columns and of the comparison table.\<close>

definition round_summary :: "stats \<Rightarrow> stats" where
  "round_summary st =
     st\<lparr>Mean_Velocity := fround 2 (Mean_Velocity st),
        Median_Velocity := fround 2 (Median_Velocity st),
        Std_Velocity := fround 2 (Std_Velocity st),
        Min_Velocity := fround 2 (Min_Velocity st),
        Max_Velocity := fround 2 (Max_Velocity st),
        Range_Velocity := fround 2 (Range_Velocity st),
        Pct_Subsiding := fround 2 (Pct_Subsiding st),
        Pct_Uplifting := fround 2 (Pct_Uplifting st),
        Pct_Stable := fround 2 (Pct_Stable st)\<rparr>"

definition round_comparison :: "comparison_row \<Rightarrow> comparison_row" where
  "round_comparison r =
     r\<lparr>Difference := fround 2 (Difference r),
       Pct_Difference := fround 1 (Pct_Difference r)\<rparr>"

text \<open>
  The script's variables after the statistics are calculated: the four statistics
  dictionaries and the three tables, built one after the other in the script's order
  (summary table, comparison, risk assessment). The script reads four tables, whose velocity
  cells may be missing.
\<close>

record script_state =
  railways_stats :: stats
  roads_stats :: stats
  harbour_stats :: stats
  dublin_stats :: stats
  summary_df :: "stats list"
  comparison_df :: "comparison_row list"
  risk_df :: "risk_row list"

definition create_summary_table :: "script_state \<Rightarrow> script_state" where
  "create_summary_table s =
     s\<lparr>summary_df :=
         map round_summary [dublin_stats s, railways_stats s, roads_stats s, harbour_stats s]\<rparr>"

definition compare_with_baseline :: "script_state \<Rightarrow> script_state" where
  "compare_with_baseline s =
     (let dublin_mean = Mean_Velocity (dublin_stats s);
          comparison =
            map (comparison_entry dublin_mean) [railways_stats s, roads_stats s, harbour_stats s]
      in s\<lparr>comparison_df := map round_comparison comparison\<rparr>)"

definition assess_risk :: "script_state \<Rightarrow> script_state" where
  "assess_risk s =
     s\<lparr>risk_df := map risk_assessment_row [railways_stats s, roads_stats s, harbour_stats s]\<rparr>"

definition statistics_script :: "table \<Rightarrow> table \<Rightarrow> table \<Rightarrow> table \<Rightarrow> error + script_state" where
  "statistics_script railways roads harbour egms_all =
     (case calculate_stats_cells railways ''Railways'' of Inl e \<Rightarrow> Inl e | Inr rs \<Rightarrow>
     (case calculate_stats_cells roads ''Roads'' of Inl e \<Rightarrow> Inl e | Inr ros \<Rightarrow>
     (case calculate_stats_cells harbour ''Harbour'' of Inl e \<Rightarrow> Inl e | Inr hs \<Rightarrow>
     (case calculate_stats_cells egms_all ''All Dublin (Baseline)'' of Inl e \<Rightarrow> Inl e | Inr ds \<Rightarrow>
        Inr (assess_risk (compare_with_baseline (create_summary_table
          \<lparr>railways_stats = rs, roads_stats = ros, harbour_stats = hs, dublin_stats = ds,
           summary_df = [], comparison_df = [], risk_df = []\<rparr>)))))))"

section \<open>Step 1: buffers around the infrastructure\<close>

text \<open>
  The geometry type and the operations on it belong to the geospatial library; they are
  parameters: reprojection to the metric reference system, the buffer of a geometry by a
  distance in metres, and the union of a list of geometries.
\<close>

record 'g geo =
  to_crs :: "'g \<Rightarrow> 'g"
  buffer :: "'g \<Rightarrow> nat \<Rightarrow> 'g"
  unary_union :: "'g list \<Rightarrow> 'g"

record ('g, 'a) feature =
  geometry :: 'g
  attributes :: 'a

record ('g, 'a) zone = "('g, 'a) feature" +
  infra_type :: string
  buffer_m :: nat

definition BUFFER_RAILWAYS :: nat where "BUFFER_RAILWAYS = 50"
definition BUFFER_ROADS :: nat where "BUFFER_ROADS = 30"
definition BUFFER_HARBOUR :: nat where "BUFFER_HARBOUR = 0"

definition reproject :: "'g geo \<Rightarrow> ('g, 'a) feature list \<Rightarrow> ('g, 'a) feature list" where
  "reproject lib fs = map (\<lambda>f. f\<lparr>geometry := to_crs lib (geometry f)\<rparr>) fs"

definition railways_buffer_of :: "'g geo \<Rightarrow> ('g, 'a) feature list \<Rightarrow> ('g, 'a) zone list" where
  "railways_buffer_of lib railways_itm =
     map (\<lambda>f. \<lparr>geometry = buffer lib (geometry f) BUFFER_RAILWAYS, attributes = attributes f,
               infra_type = ''Railways'', buffer_m = BUFFER_RAILWAYS\<rparr>) railways_itm"

definition roads_buffer_of :: "'g geo \<Rightarrow> ('g, 'a) feature list \<Rightarrow> ('g, 'a) zone list" where
  "roads_buffer_of lib roads_itm =
     map (\<lambda>f. \<lparr>geometry = buffer lib (geometry f) BUFFER_ROADS, attributes = attributes f,
               infra_type = ''Roads'', buffer_m = BUFFER_ROADS\<rparr>) roads_itm"

text \<open>The harbour rows are a copy with the two columns added; no buffer is computed.\<close>

definition harbour_buffer_of :: "('g, 'a) feature list \<Rightarrow> ('g, 'a) zone list" where
  "harbour_buffer_of harbour_itm =
     map (\<lambda>f. \<lparr>geometry = geometry f, attributes = attributes f,
               infra_type = ''Harbour'', buffer_m = 0\<rparr>) harbour_itm"

text \<open>
  The other columns of a feature are a function from the column name to the cell, None
  for a null cell.

  \<open>dissolve(by='infra_type')\<close>: one row per value of the column, in sorted order; its
  geometry is the union of the group's geometries, and every other column holds the first
  value of the group that is not null (the aggregation \<open>first\<close>). The two columns the
  script adds are never null.
\<close>

fun first_non_null :: "'v option list \<Rightarrow> 'v option" where
  "first_non_null [] = None"
| "first_non_null (Some v # cs) = Some v"
| "first_non_null (None # cs) = first_non_null cs"

definition dissolve ::
  "'g geo \<Rightarrow> ('g, 'c \<Rightarrow> 'v option) zone list \<Rightarrow> ('g, 'c \<Rightarrow> 'v option) zone list" where
  "dissolve lib rows =
     map (\<lambda>k. let grp = filter (\<lambda>r. infra_type r = k) rows
              in \<lparr>geometry = unary_union lib (map geometry grp),
                  attributes = (\<lambda>c. first_non_null (map (\<lambda>r. attributes r c) grp)),
                  infra_type = k, buffer_m = buffer_m (hd grp)\<rparr>)
         (sorted_list_of_set (set (map infra_type rows)))"

record ('g, 'a) buffers =
  railways_buffer :: "('g, 'a) zone list"
  roads_buffer :: "('g, 'a) zone list"
  harbour_buffer :: "('g, 'a) zone list"
  railways_dissolved :: "('g, 'a) zone list"
  roads_dissolved :: "('g, 'a) zone list"
  harbour_dissolved :: "('g, 'a) zone list"

definition create_buffers ::
  "'g geo \<Rightarrow> ('g, 'c \<Rightarrow> 'v option) feature list \<Rightarrow> ('g, 'c \<Rightarrow> 'v option) feature list \<Rightarrow>
   ('g, 'c \<Rightarrow> 'v option) feature list \<Rightarrow> ('g, 'c \<Rightarrow> 'v option) buffers" where
  "create_buffers lib roads railways harbour =
     (let roads_itm = reproject lib roads;
          railways_itm = reproject lib railways;
          harbour_itm = reproject lib harbour;
          rb = railways_buffer_of lib railways_itm;
          rob = roads_buffer_of lib roads_itm;
          hb = harbour_buffer_of harbour_itm
      in \<lparr>railways_buffer = rb, roads_buffer = rob, harbour_buffer = hb,
          railways_dissolved = dissolve lib rb,
          roads_dissolved = dissolve lib rob,
          harbour_dissolved = dissolve lib hb\<rparr>)"

section \<open>Step 2: measurement points inside the buffer zones\<close>

text \<open>
  A zone's geometry, as far as the spatial predicates look at it: the points of its interior
  and the points of its boundary (everything else is its exterior). A measurement point
  carries its location, its velocity and its other columns.
\<close>

type_synonym point = "real \<times> real"

record region =
  interior_pts :: "point set"
  boundary_pts :: "point set"

record 'a egms_point =
  pt_geometry :: point
  pt_velocity :: real
  pt_attributes :: 'a

text \<open>
  The library's predicates for a point and a region: a point is \<open>within\<close> a region when
  it lies in the region's interior, and \<open>intersects\<close> it when it lies in the interior or
  on the boundary.
\<close>

definition point_within :: "point \<Rightarrow> region \<Rightarrow> bool" where
  "point_within p g = (p \<in> interior_pts g)"

definition point_intersects :: "point \<Rightarrow> region \<Rightarrow> bool" where
  "point_intersects p g = (p \<in> interior_pts g \<or> p \<in> boundary_pts g)"

text \<open>
  A row of the join: the columns of the point (left), the position of the matching zone
  row and that row's columns other than its geometry (right), and the \<open>infrastructure\<close>
  column, absent until the script adds it.
\<close>

record ('a, 'b) joined =
  left :: "'a egms_point"
  index_right :: nat
  right_infra_type :: string
  right_buffer_m :: nat
  right_attributes :: 'b
  infrastructure :: "string option"

text \<open>
  \<open>sjoin(left, right, how='inner', predicate=...)\<close>: one row for every pair of a left
  row and a right row that satisfies the predicate, in the order of the left rows.
\<close>

definition sjoin_inner ::
  "(point \<Rightarrow> region \<Rightarrow> bool) \<Rightarrow> 'a egms_point list \<Rightarrow> (region, 'b) zone list \<Rightarrow>
   ('a, 'b) joined list" where
  "sjoin_inner predicate egms_data buffer_data =
     concat (map (\<lambda>p.
       map (\<lambda>(i, z). \<lparr>left = p, index_right = i, right_infra_type = infra_type z,
                       right_buffer_m = buffer_m z, right_attributes = attributes z,
                       infrastructure = None\<rparr>)
           (filter (\<lambda>(i, z). predicate (pt_geometry p) (geometry z)) (enumerate 0 buffer_data)))
       egms_data)"

definition find_points_in_buffer ::
  "'a egms_point list \<Rightarrow> (region, 'b) zone list \<Rightarrow> string \<Rightarrow> ('a, 'b) joined list" where
  "find_points_in_buffer egms_data buffer_data infrastructure_name =
     (let points_inside = sjoin_inner point_within egms_data buffer_data;
          n_points = length points_inside
      in if 0 < n_points
         then map (\<lambda>r. r\<lparr>infrastructure := Some infrastructure_name\<rparr>) points_inside
         else points_inside)"





section \<open>Sample inputs\<close>

text \<open>A statistics record with chosen mean, maximum and stable share, for concrete instances.\<close>

definition sample_stats :: "string \<Rightarrow> npfloat \<Rightarrow> npfloat \<Rightarrow> npfloat \<Rightarrow> stats" where
  "sample_stats name m mx p =
     \<lparr>Infrastructure = name, N_Points = 40, Mean_Velocity = m, Median_Velocity = m,
      Std_Velocity = Fin 1, Min_Velocity = Fin (- 9), Max_Velocity = mx,
      Range_Velocity = fsub mx (Fin (- 9)), Pct_Subsiding = Fin 50, Pct_Uplifting = Fin 45,
      Pct_Stable = p, risk_counts = None\<rparr>"

definition zone_of :: "real list \<Rightarrow> data" where
  "zone_of vs = \<lparr>velocity = vs, risk_level = None\<rparr>"

text \<open>
  Ten velocities with mean 5.00390625 and a stable share of 90: the mean rounds to 5.00 in
  the summary table. All the numbers of this run are floats, and so are their sums and
  quotients.
\<close>

definition near_five :: "real list" where
  "near_five = [2, 2, 2, 2, 2, 2, 2, 2, 2, 4101 / 128]"

definition sample_records :: script_state where
  "sample_records =
     \<lparr>railways_stats = projr (calculate_stats (zone_of near_five) ''Railways''),
      roads_stats = projr (calculate_stats (zone_of [1]) ''Roads''),
      harbour_stats = projr (calculate_stats (zone_of [0]) ''Harbour''),
      dublin_stats = projr (calculate_stats (zone_of [- 1, 2]) ''All Dublin (Baseline)''),
      summary_df = [], comparison_df = [], risk_df = []\<rparr>"

definition zero_baseline_records :: script_state where
  "zero_baseline_records =
     \<lparr>railways_stats = projr (calculate_stats (zone_of [3]) ''Railways''),
      roads_stats = projr (calculate_stats (zone_of [- 2]) ''Roads''),
      harbour_stats = projr (calculate_stats (zone_of [0]) ''Harbour''),
      dublin_stats = projr (calculate_stats (zone_of [- 4, 4]) ''All Dublin (Baseline)''),
      summary_df = [], comparison_df = [], risk_df = []\<rparr>"

text \<open>
  A toy geometry library on the integer line: a geometry is a set of integers,
  reprojection shifts it by 100, the buffer adds the points at the given distance, the
  union is the set union.
\<close>

definition line_lib :: "int set geo" where
  "line_lib =
     \<lparr>to_crs = (\<lambda>g. (\<lambda>x. x + 100) ` g),
      buffer = (\<lambda>g r. g \<union> (\<lambda>x. x + int r) ` g \<union> (\<lambda>x. x - int r) ` g),
      unary_union = (\<lambda>gs. \<Union> (set gs))\<rparr>"

text \<open>Features with the one column \<open>name\<close>; the first quay has no name.\<close>

definition named :: "string \<Rightarrow> string \<Rightarrow> string option" where
  "named v c = (if c = ''name'' then Some v else None)"

definition quays :: "(int set, string \<Rightarrow> string option) feature list" where
  "quays = [\<lparr>geometry = {1, 2}, attributes = (\<lambda>c. None)\<rparr>,
            \<lparr>geometry = {2, 3}, attributes = named ''south quay''\<rparr>]"

definition tracks :: "(int set, string \<Rightarrow> string option) feature list" where
  "tracks = [\<lparr>geometry = {0}, attributes = named ''main line''\<rparr>,
             \<lparr>geometry = {7}, attributes = named ''siding''\<rparr>]"

definition lanes :: "(int set, string \<Rightarrow> string option) feature list" where
  "lanes = [\<lparr>geometry = {- 40}, attributes = named ''ring road''\<rparr>]"

text \<open>The open unit square with its four edges as boundary, as a zone, and three points:
  one inside, one on the right edge, one outside.\<close>

definition unit_square :: region where
  "unit_square =
     \<lparr>interior_pts = {(x, y). 0 < x \<and> x < 1 \<and> 0 < y \<and> y < 1},
      boundary_pts = {(x, y). 0 \<le> x \<and> x \<le> 1 \<and> 0 \<le> y \<and> y \<le> 1
                               \<and> (x = 0 \<or> x = 1 \<or> y = 0 \<or> y = 1)}\<rparr>"

definition square_zone :: "(region, string) zone" where
  "square_zone =
     \<lparr>geometry = unit_square, attributes = ''dock'', infra_type = ''Harbour'', buffer_m = 0\<rparr>"


definition p_inside :: "string egms_point" where
  "p_inside = \<lparr>pt_geometry = (1 / 2, 1 / 2), pt_velocity = - 15 / 10, pt_attributes = ''a''\<rparr>"

definition p_edge :: "string egms_point" where
  "p_edge = \<lparr>pt_geometry = (1, 1 / 2), pt_velocity = 3 / 10, pt_attributes = ''b''\<rparr>"

definition p_outside :: "string egms_point" where
  "p_outside = \<lparr>pt_geometry = (2, 2), pt_velocity = 4, pt_attributes = ''c''\<rparr>"

section \<open>Comparisons and arithmetic on finite values\<close>

lemma fge_Fin [simp]: "fge (Fin a) (Fin b) = (b \<le> a)"
  by (simp add: fge_def)

lemma fgt_Fin [simp]: "fgt (Fin a) (Fin b) = (b < a)"
  by (simp add: fgt_def)

lemma fsub_Fin [simp]: "fsub (Fin a) (Fin b) = Fin (a - b)"
  by (simp add: fsub_def)

section \<open>Risk classification\<close>

lemma Risk_Level_row:
  "Risk_Level (risk_assessment_row st) =
     (if fle (fabs (Mean_Velocity st)) (Fin 2) \<and> fge (Pct_Stable st) (Fin 95) then ''LOW''
      else if fle (fabs (Mean_Velocity st)) (Fin 5) \<and> fge (Pct_Stable st) (Fin 90)
        then ''MODERATE''
      else ''ELEVATED'')"
  by (simp add: risk_assessment_row_def Let_def)

lemma Recommended_Action_row:
  "Recommended_Action (risk_assessment_row st) =
     (if fle (fabs (Mean_Velocity st)) (Fin 2) \<and> fge (Pct_Stable st) (Fin 95)
        then ''Continue routine monitoring''
      else if fle (fabs (Mean_Velocity st)) (Fin 5) \<and> fge (Pct_Stable st) (Fin 90)
        then ''Increased monitoring recommended''
      else ''Detailed investigation required'')"
  by (simp add: risk_assessment_row_def Let_def)

text \<open>
  C1. The risk loop classifies a statistics record by three branches, the first that
  matches winning: LOW with action "Continue routine monitoring" when the absolute mean
  velocity is at most 2 and the stable share is at least 95; otherwise MODERATE with
  action "Increased monitoring recommended" when the absolute mean is at most 5 and the
  stable share at least 90; otherwise ELEVATED with action "Detailed investigation
  required". The thresholds 2, 5, 95 and 90 are literals of the loop body. The first
  conjunct holds for every record (a comparison with \<open>nan\<close> is false, so such a record
  falls through to ELEVATED); the second reads the two conditions as inequalities between
  real numbers when the two fields are finite.
\<close>

theorem risk_classification_three_branches:
  "(Risk_Level (risk_assessment_row st), Recommended_Action (risk_assessment_row st)) =
     (if fle (fabs (Mean_Velocity st)) (Fin 2) \<and> fge (Pct_Stable st) (Fin 95)
        then (''LOW'', ''Continue routine monitoring'')
      else if fle (fabs (Mean_Velocity st)) (Fin 5) \<and> fge (Pct_Stable st) (Fin 90)
        then (''MODERATE'', ''Increased monitoring recommended'')
      else (''ELEVATED'', ''Detailed investigation required''))
   \<and> (Mean_Velocity st = Fin m \<and> Pct_Stable st = Fin p \<longrightarrow>
        (Risk_Level (risk_assessment_row st), Recommended_Action (risk_assessment_row st)) =
          (if \<bar>m\<bar> \<le> 2 \<and> 95 \<le> p then (''LOW'', ''Continue routine monitoring'')
           else if \<bar>m\<bar> \<le> 5 \<and> 90 \<le> p then (''MODERATE'', ''Increased monitoring recommended'')
           else (''ELEVATED'', ''Detailed investigation required'')))"
proof (intro conjI impI)
  show "(Risk_Level (risk_assessment_row st), Recommended_Action (risk_assessment_row st)) =
     (if fle (fabs (Mean_Velocity st)) (Fin 2) \<and> fge (Pct_Stable st) (Fin 95)
        then (''LOW'', ''Continue routine monitoring'')
      else if fle (fabs (Mean_Velocity st)) (Fin 5) \<and> fge (Pct_Stable st) (Fin 90)
        then (''MODERATE'', ''Increased monitoring recommended'')
      else (''ELEVATED'', ''Detailed investigation required''))"
    by (simp add: Risk_Level_row Recommended_Action_row)
next
  assume finite: "Mean_Velocity st = Fin m \<and> Pct_Stable st = Fin p"
  then have "Mean_Velocity st = Fin m" and "Pct_Stable st = Fin p"
    by simp_all
  then show "(Risk_Level (risk_assessment_row st), Recommended_Action (risk_assessment_row st)) =
          (if \<bar>m\<bar> \<le> 2 \<and> 95 \<le> p then (''LOW'', ''Continue routine monitoring'')
           else if \<bar>m\<bar> \<le> 5 \<and> 90 \<le> p then (''MODERATE'', ''Increased monitoring recommended'')
           else (''ELEVATED'', ''Detailed investigation required''))"
    by (simp add: Risk_Level_row Recommended_Action_row)
qed

theorem risk_classification_three_branches_witness:
  "Risk_Level (risk_assessment_row (sample_stats ''Roads'' (Fin (- 1)) (Fin 7) (Fin 96))) = ''LOW''
   \<and> Recommended_Action (risk_assessment_row (sample_stats ''Roads'' (Fin (- 1)) (Fin 7) (Fin 96)))
       = ''Continue routine monitoring''
   \<and> Risk_Level (risk_assessment_row (sample_stats ''Roads'' (Fin (- 1)) (Fin 7) (Fin 92)))
       = ''MODERATE''
   \<and> Risk_Level (risk_assessment_row (sample_stats ''Roads'' (Fin (- 6)) (Fin 7) (Fin 99)))
       = ''ELEVATED''
   \<and> Risk_Level (risk_assessment_row (sample_stats ''Roads'' NaN NaN NaN)) = ''ELEVATED''"
  using risk_classification_three_branches
          [of "sample_stats ''Roads'' (Fin (- 1)) (Fin 7) (Fin 96)" "- 1" 96]
        risk_classification_three_branches
          [of "sample_stats ''Roads'' (Fin (- 1)) (Fin 7) (Fin 92)" "- 1" 92]
        risk_classification_three_branches
          [of "sample_stats ''Roads'' (Fin (- 6)) (Fin 7) (Fin 99)" "- 6" 99]
        risk_classification_three_branches [of "sample_stats ''Roads'' NaN NaN NaN" 0 0]
  by (simp add: sample_stats_def)

text \<open>
  C8. The tier and the action depend on the mean velocity and the stable share only: two
  statistics records that agree on these two fields get the same tier and the same
  action, whatever their other fields are; the maximum velocity, which the loop body
  reads, does not influence them.
\<close>

theorem risk_classification_depends_on_mean_and_stable_only:
  assumes "Mean_Velocity a = Mean_Velocity b" and "Pct_Stable a = Pct_Stable b"
  shows "Risk_Level (risk_assessment_row a) = Risk_Level (risk_assessment_row b)
       \<and> Recommended_Action (risk_assessment_row a) = Recommended_Action (risk_assessment_row b)"
  using assms by (simp add: Risk_Level_row Recommended_Action_row)

theorem risk_classification_depends_on_mean_and_stable_only_witness:
  "Max_Velocity (sample_stats ''Roads'' (Fin 3) (Fin 4) (Fin 91))
     \<noteq> Max_Velocity (sample_stats ''Harbour'' (Fin 3) (Fin 80) (Fin 91))
   \<and> Risk_Level (risk_assessment_row (sample_stats ''Roads'' (Fin 3) (Fin 4) (Fin 91)))
       = Risk_Level (risk_assessment_row (sample_stats ''Harbour'' (Fin 3) (Fin 80) (Fin 91)))
   \<and> Recommended_Action (risk_assessment_row (sample_stats ''Roads'' (Fin 3) (Fin 4) (Fin 91)))
       = Recommended_Action
           (risk_assessment_row (sample_stats ''Harbour'' (Fin 3) (Fin 80) (Fin 91)))"
  using risk_classification_depends_on_mean_and_stable_only
          [of "sample_stats ''Roads'' (Fin 3) (Fin 4) (Fin 91)"
              "sample_stats ''Harbour'' (Fin 3) (Fin 80) (Fin 91)"]
  by (simp add: sample_stats_def)

text \<open>
  C2. For a zone with the velocities -1, -3, 0, 2, 5 the statistics are: mean 0.6, median
  0, stable share 60 (three of five in the band from -2 to 2), subsiding share 40 and
  uplifting share 40 (the zero counts for neither), and the risk tier of this record is
  ELEVATED: the absolute mean is at most 2 but the stable share is below 95, and the
  absolute mean is at most 5 but the stable share is below 90 (the four truth values at
  the end). This holds with or without a risk-level column.
\<close>

theorem five_point_zone_statistics_and_tier:
  "map_sum id
     (\<lambda>st. (Mean_Velocity st, Median_Velocity st, Pct_Stable st, Pct_Subsiding st,
            Pct_Uplifting st, Risk_Level (risk_assessment_row st),
            fle (fabs (Mean_Velocity st)) (Fin 2), fge (Pct_Stable st) (Fin 95),
            fle (fabs (Mean_Velocity st)) (Fin 5), fge (Pct_Stable st) (Fin 90)))
     (calculate_stats \<lparr>velocity = [- 1, - 3, 0, 2, 5], risk_level = rl\<rparr> name)
   = Inr (Fin (6 / 10), Fin 0, Fin 60, Fin 40, Fin 40, ''ELEVATED'', True, False, True, False)"
  by (cases rl)
     (simp_all add: calculate_stats_def risk_distribution_of_def Let_def mean_def median_def
        pct_def Risk_Level_row)

theorem five_point_zone_statistics_and_tier_witness:
  "map_sum id
     (\<lambda>st. (Mean_Velocity st, Median_Velocity st, Pct_Stable st, Pct_Subsiding st,
            Pct_Uplifting st, Risk_Level (risk_assessment_row st),
            fle (fabs (Mean_Velocity st)) (Fin 2), fge (Pct_Stable st) (Fin 95),
            fle (fabs (Mean_Velocity st)) (Fin 5), fge (Pct_Stable st) (Fin 90)))
     (calculate_stats (zone_of [- 1, - 3, 0, 2, 5]) ''Railways'')
   = Inr (Fin (6 / 10), Fin 0, Fin 60, Fin 40, Fin 40, ''ELEVATED'', True, False, True, False)"
  using five_point_zone_statistics_and_tier [of None "''Railways''"]
  by (simp add: zone_of_def)

section \<open>Floats\<close>

lemma pow2_powr: "pow2 k = 2 powr (of_int k)"
  by (simp add: pow2_def powr_int)

lemma pow2_pos: "0 < pow2 k"
  by (simp add: pow2_powr)

lemma pow2_add: "pow2 (a + b) = pow2 a * pow2 b"
  by (simp add: pow2_powr powr_add)

lemma pow2_mono: "a \<le> b \<Longrightarrow> pow2 a \<le> pow2 b"
  by (simp add: pow2_powr)

lemma pow2_less_iff: "pow2 a < pow2 b \<longleftrightarrow> a < b"
  by (simp add: pow2_powr)

lemma pow2_nat: "0 \<le> k \<Longrightarrow> pow2 k = of_int (2 ^ nat k)"
  by (simp add: pow2_def)

lemma rint_of_int: "rint (of_int z) = z"
  by (simp add: rint_def)

lemma floor_log2:
  assumes "x \<noteq> 0" and "pow2 e \<le> \<bar>x\<bar>" and "\<bar>x\<bar> < pow2 (e + 1)"
  shows "\<lfloor>log 2 \<bar>x\<bar>\<rfloor> = e"
  using assms floor_log_eq_powr_iff [of "\<bar>x\<bar>" 2 e]
  by (simp add: pow2_powr)

lemma floor_log2_bounds:
  assumes "x \<noteq> 0"
  shows "pow2 \<lfloor>log 2 \<bar>x\<bar>\<rfloor> \<le> \<bar>x\<bar>" and "\<bar>x\<bar> < pow2 (\<lfloor>log 2 \<bar>x\<bar>\<rfloor> + 1)"
  using assms floor_log_eq_powr_iff [of "\<bar>x\<bar>" 2 "\<lfloor>log 2 \<bar>x\<bar>\<rfloor>"]
  by (simp_all add: pow2_powr)

text \<open>The float nearest to a number whose binade is known.\<close>

lemma binary64_eqI:
  assumes "x \<noteq> 0" and "pow2 e \<le> \<bar>x\<bar>" and "\<bar>x\<bar> < pow2 (e + 1)" and "- 1022 \<le> e"
    and "rint (x / pow2 (e - 52)) = n"
    and "y = of_int n * pow2 (e - 52)" and "\<bar>y\<bar> < 2 ^ 1024"
  shows "binary64 x = Fin y"
proof -
  have "exponent x = e"
    using floor_log2 [OF assms(1-3)] assms(4) by (simp add: exponent_def)
  then show ?thesis
    using assms by (simp add: binary64_def Let_def)
qed

text \<open>
  A number with a significand of less than 53 bits and an exponent in the normal range is
  a float: rounding leaves it as it is.
\<close>

lemma binary64_dyadic:
  assumes x: "x = of_int n * pow2 k" and n: "\<bar>n\<bar> < 2 ^ 53" and k: "- 1022 \<le> k" "k \<le> 970"
  shows "binary64 x = Fin x"
proof (cases "n = 0")
  case True
  then show ?thesis by (simp add: x binary64_def)
next
  case False
  then have x0: "x \<noteq> 0"
    using pow2_pos [of k] by (simp add: x)
  define e where "e = \<lfloor>log 2 \<bar>x\<bar>\<rfloor>"
  have lo: "pow2 e \<le> \<bar>x\<bar>" and hi: "\<bar>x\<bar> < pow2 (e + 1)"
    using floor_log2_bounds [OF x0] by (simp_all add: e_def)
  have absx: "\<bar>x\<bar> = of_int \<bar>n\<bar> * pow2 k"
    using pow2_pos [of k] by (simp add: x abs_mult)
  have "1 \<le> \<bar>n\<bar>" using False by simp
  then have "(1::real) \<le> of_int \<bar>n\<bar>" by linarith
  then have "pow2 k \<le> \<bar>x\<bar>"
    using pow2_pos [of k] by (simp add: absx)
  with hi have "pow2 k < pow2 (e + 1)" by simp
  then have ke: "k \<le> e" by (simp add: pow2_less_iff)
  have "of_int \<bar>n\<bar> < (2::real) ^ 53"
    using n by (metis of_int_less_iff of_int_numeral of_int_power)
  then have "\<bar>x\<bar> < 2 ^ 53 * pow2 k"
    using pow2_pos [of k] by (simp add: absx)
  also have "\<dots> = pow2 (53 + k)"
    by (simp add: pow2_add) (simp add: pow2_def)
  finally have xhi: "\<bar>x\<bar> < pow2 (53 + k)" .
  with lo have "pow2 e < pow2 (53 + k)" by simp
  then have ek: "e \<le> 52 + k" by (simp add: pow2_less_iff)
  have ex: "exponent x = e"
    using ke k by (simp add: exponent_def e_def)
  have "pow2 k = pow2 (k - (e - 52)) * pow2 (e - 52)"
    by (simp add: pow2_add [symmetric])
  then have "x / pow2 (e - 52) = of_int n * pow2 (k - (e - 52))"
    using pow2_pos [of "e - 52"] by (simp add: x)
  also have "\<dots> = of_int (n * 2 ^ nat (k - (e - 52)))"
    using ek by (simp add: pow2_nat)
  finally have q: "x / pow2 (e - 52) = of_int (n * 2 ^ nat (k - (e - 52)))" .
  have xq: "of_int (n * 2 ^ nat (k - (e - 52))) * pow2 (e - 52) = x"
    using q pow2_pos [of "e - 52"] by (simp add: field_simps)
  have "rint (x / pow2 (e - 52)) = n * 2 ^ nat (k - (e - 52))"
    by (simp only: q rint_of_int)
  then have y: "of_int (rint (x / pow2 (e - 52))) * pow2 (e - 52) = x"
    by (simp only: xq)
  have "pow2 (53 + k) \<le> pow2 1023"
    using k by (intro pow2_mono) simp
  also have "\<dots> < 2 ^ 1024"
    by (simp add: pow2_def)
  finally have "\<bar>x\<bar> < 2 ^ 1024"
    using xhi by simp
  then show ?thesis
    using x0 by (simp add: binary64_def Let_def ex y)
qed

lemma binary64_int: "\<bar>z\<bar> < 2 ^ 53 \<Longrightarrow> binary64 (of_int z) = Fin (of_int z)"
  by (rule binary64_dyadic [where n = z and k = 0]) (simp_all add: pow2_def)

lemma binary64_zero [simp]: "binary64 0 = Fin 0"
  by (simp add: binary64_def)

text \<open>The small integers and the dyadic fractions that the sample runs meet.\<close>

lemma binary64_samples:
  "binary64 1 = Fin 1" "binary64 (- 1) = Fin (- 1)" "binary64 2 = Fin 2" "binary64 (- 2) = Fin (- 2)"
  "binary64 3 = Fin 3" "binary64 5 = Fin 5" "binary64 10 = Fin 10" "binary64 50 = Fin 50"
  "binary64 (- 50) = Fin (- 50)" "binary64 90 = Fin 90" "binary64 100 = Fin 100"
  "binary64 450 = Fin 450" "binary64 500 = Fin 500" "binary64 9000 = Fin 9000"
  "binary64 10000 = Fin 10000"
  using binary64_int [of 1] binary64_int [of "- 1"] binary64_int [of 2] binary64_int [of "- 2"]
    binary64_int [of 3] binary64_int [of 5] binary64_int [of 10] binary64_int [of 50]
    binary64_int [of "- 50"] binary64_int [of 90] binary64_int [of 100] binary64_int [of 450]
    binary64_int [of 500] binary64_int [of 9000] binary64_int [of 10000]
  by simp_all

lemma binary64_sample_fractions:
  "binary64 (1 / 2) = Fin (1 / 2)" "binary64 (- 1 / 2) = Fin (- 1 / 2)"
  "binary64 (- (1 / 2)) = Fin (- (1 / 2))"
  "binary64 (9 / 2) = Fin (9 / 2)" "binary64 (1281 / 256) = Fin (1281 / 256)"
  "binary64 (1153 / 256) = Fin (1153 / 256)" "binary64 (32025 / 64) = Fin (32025 / 64)"
  "binary64 (28825 / 64) = Fin (28825 / 64)"
  using binary64_dyadic [of "1 / 2" 1 "- 1"] binary64_dyadic [of "- 1 / 2" "- 1" "- 1"]
    binary64_dyadic [of "9 / 2" 9 "- 1"] binary64_dyadic [of "1281 / 256" 1281 "- 8"]
    binary64_dyadic [of "1153 / 256" 1153 "- 8"] binary64_dyadic [of "32025 / 64" 32025 "- 6"]
    binary64_dyadic [of "28825 / 64" 28825 "- 6"]
  by (simp_all add: pow2_def)

text \<open>The floats nearest to the decimals -0.2, -0.53 and 0.33, and two facts about them.\<close>

lemma binary64_decimals:
  "binary64 (- 2 / 10) = Fin (- 3602879701896397 / 2 ^ 54)"
  "binary64 (- 53 / 100) = Fin (- 2386907802506363 / 2 ^ 52)"
  "binary64 (33 / 100) = Fin (5944751508129055 / 2 ^ 54)"
proof -
  show "binary64 (- 2 / 10) = Fin (- 3602879701896397 / 2 ^ 54)"
    by (rule binary64_eqI [where e = "- 3" and n = "- 7205759403792794"])
       (simp_all add: pow2_def rint_def)
  show "binary64 (- 53 / 100) = Fin (- 2386907802506363 / 2 ^ 52)"
    by (rule binary64_eqI [where e = "- 1" and n = "- 4773815605012726"])
       (simp_all add: pow2_def rint_def)
  show "binary64 (33 / 100) = Fin (5944751508129055 / 2 ^ 54)"
    by (rule binary64_eqI [where e = "- 2" and n = "5944751508129055"])
       (simp_all add: pow2_def rint_def)
qed

lemma binary64_decimal_floats:
  "binary64 (- 3602879701896397 / 2 ^ 54) = Fin (- 3602879701896397 / 2 ^ 54)"
  "binary64 (- 2386907802506363 / 2 ^ 52) = Fin (- 2386907802506363 / 2 ^ 52)"
  "binary64 (5944751508129055 / 2 ^ 54) = Fin (5944751508129055 / 2 ^ 54)"
  "binary64 (5944751508129055 / 2 ^ 54 * 100) = Fin 33"
proof -
  show "binary64 (- 3602879701896397 / 2 ^ 54) = Fin (- 3602879701896397 / 2 ^ 54)"
    by (rule binary64_dyadic [where n = "- 3602879701896397" and k = "- 54"])
       (simp_all add: pow2_def)
  show "binary64 (- 2386907802506363 / 2 ^ 52) = Fin (- 2386907802506363 / 2 ^ 52)"
    by (rule binary64_dyadic [where n = "- 2386907802506363" and k = "- 52"])
       (simp_all add: pow2_def)
  show "binary64 (5944751508129055 / 2 ^ 54) = Fin (5944751508129055 / 2 ^ 54)"
    by (rule binary64_dyadic [where n = "5944751508129055" and k = "- 54"])
       (simp_all add: pow2_def)
  show "binary64 (5944751508129055 / 2 ^ 54 * 100) = Fin 33"
    by (rule binary64_eqI [where e = 5 and n = "4644337115725824"])
       (simp_all add: pow2_def rint_def)
qed

lemma float_ops_special [simp]:
  "float_mul NaN b = NaN" "float_div NaN b = NaN" "float_sub NaN b = NaN"
  "0 < c \<Longrightarrow> float_mul PInf (Fin c) = PInf" "0 < c \<Longrightarrow> float_mul NInf (Fin c) = NInf"
  "0 < c \<Longrightarrow> float_div PInf (Fin c) = PInf" "0 < c \<Longrightarrow> float_div NInf (Fin c) = NInf"
  by (simp_all add: float_div_def float_mul_def float_sub_def signed_inf_def fsub_def)

lemma fround_special [simp]:
  "fround d PInf = PInf" "fround d NInf = NInf" "fround d NaN = NaN"
  by (simp_all add: fround_def)

section \<open>Statistics of a zone\<close>

lemma calculate_stats_zone_of:
  "calculate_stats (zone_of vs) name = Inr (projr (calculate_stats (zone_of vs) name))"
  by (simp add: calculate_stats_def zone_of_def Let_def)

lemma Mean_Velocity_zone_of:
  "Mean_Velocity (projr (calculate_stats (zone_of vs) name)) = mean vs"
  by (simp add: calculate_stats_def zone_of_def Let_def)

lemma Pct_Stable_zone_of:
  "Pct_Stable (projr (calculate_stats (zone_of vs) name)) = pct (\<lambda>v. - 2 \<le> v \<and> v \<le> 2) vs"
  by (simp add: calculate_stats_def zone_of_def Let_def)

lemma present_Some: "present (map Some xs) = xs"
  by (induction xs) (simp_all add: present_def)

lemma pct_rows_all: "pct_rows P xs (length xs) = pct P xs"
  by (simp add: pct_rows_def pct_def)

lemma pct_rows_empty: "pct_rows P [] 0 = NaN"
  by (simp add: pct_rows_def)

text \<open>On a table without missing cells the two functions agree.\<close>

lemma calculate_stats_table_of:
  "calculate_stats_cells (table_of d) name = calculate_stats d name"
  by (simp add: calculate_stats_cells_def calculate_stats_def table_of_def Let_def
        present_Some pct_rows_def pct_def)

text \<open>
  The one raise of \<open>calculate_stats\<close>: an empty table that has a risk-level column.
\<close>

lemma calculate_stats_empty_with_labels:
  assumes "velocity d = []" and "risk_level d = Some []"
  shows "calculate_stats d name = Inl ZeroDivisionError"
  using assms
  by (simp add: calculate_stats_def Let_def risk_distribution_of_def count_label_def)

text \<open>
  C5 (as amended). The statistics computation has no check for an empty set. For every
  non-empty table (cells missing or not) it succeeds and produces a full record: the name,
  the number of rows, the statistics, and the risk counts exactly when the table has a
  risk-level column. For an empty table without a risk-level column it does not fail
  either: it returns a record with count 0 whose mean, median and every other statistic is
  \<open>nan\<close>. Only for an empty table that has a risk-level column it fails, with the
  \<open>ZeroDivisionError\<close> of the share of high-risk rows.
\<close>

theorem calculate_stats_nonempty_and_empty:
  "(cells t \<noteq> [] \<longrightarrow>
      (\<exists>st. calculate_stats_cells t name = Inr st \<and> Infrastructure st = name
         \<and> N_Points st = length (cells t)
         \<and> (risk_counts st = None) = (labels t = None)))
   \<and> (cells t = [] \<and> labels t = None \<longrightarrow>
      (\<exists>st. calculate_stats_cells t name = Inr st \<and> Infrastructure st = name
         \<and> N_Points st = 0 \<and> risk_counts st = None
         \<and> Mean_Velocity st = NaN \<and> Median_Velocity st = NaN \<and> Std_Velocity st = NaN
         \<and> Min_Velocity st = NaN \<and> Max_Velocity st = NaN \<and> Range_Velocity st = NaN
         \<and> Pct_Subsiding st = NaN \<and> Pct_Uplifting st = NaN \<and> Pct_Stable st = NaN))
   \<and> (cells t = [] \<and> labels t = Some [] \<longrightarrow>
      calculate_stats_cells t name = Inl ZeroDivisionError)
   \<and> calculate_stats d name = calculate_stats_cells (table_of d) name"
proof (intro conjI impI)
  assume "cells t \<noteq> []"
  then show "\<exists>st. calculate_stats_cells t name = Inr st \<and> Infrastructure st = name
         \<and> N_Points st = length (cells t)
         \<and> (risk_counts st = None) = (labels t = None)"
    by (cases "labels t")
       (simp_all add: calculate_stats_cells_def risk_distribution_of_def Let_def)
next
  assume "cells t = [] \<and> labels t = None"
  then show "\<exists>st. calculate_stats_cells t name = Inr st \<and> Infrastructure st = name
         \<and> N_Points st = 0 \<and> risk_counts st = None
         \<and> Mean_Velocity st = NaN \<and> Median_Velocity st = NaN \<and> Std_Velocity st = NaN
         \<and> Min_Velocity st = NaN \<and> Max_Velocity st = NaN \<and> Range_Velocity st = NaN
         \<and> Pct_Subsiding st = NaN \<and> Pct_Uplifting st = NaN \<and> Pct_Stable st = NaN"
    by (simp add: calculate_stats_cells_def Let_def present_def mean_def median_def
          min_col_def max_col_def std_def pct_rows_empty fsub_def)
next
  assume "cells t = [] \<and> labels t = Some []"
  then show "calculate_stats_cells t name = Inl ZeroDivisionError"
    by (simp add: calculate_stats_cells_def Let_def risk_distribution_of_def count_label_def)
next
  show "calculate_stats d name = calculate_stats_cells (table_of d) name"
    by (simp add: calculate_stats_table_of)
qed

theorem calculate_stats_nonempty_and_empty_witness:
  "N_Points (projr (calculate_stats_cells \<lparr>cells = [Some (- 1), None, Some 3], labels = None\<rparr>
      ''Roads'')) = 3
   \<and> Infrastructure (projr (calculate_stats_cells
        \<lparr>cells = [Some (- 1), None, Some 3], labels = None\<rparr> ''Roads'')) = ''Roads''
   \<and> N_Points (projr (calculate_stats_cells \<lparr>cells = [], labels = None\<rparr> ''Roads'')) = 0
   \<and> Median_Velocity (projr (calculate_stats_cells \<lparr>cells = [], labels = None\<rparr> ''Roads''))
       = NaN
   \<and> calculate_stats_cells \<lparr>cells = [], labels = Some []\<rparr> ''Roads'' = Inl ZeroDivisionError
   \<and> calculate_stats (zone_of [- 1, 3]) ''Roads''
       = calculate_stats_cells \<lparr>cells = [Some (- 1), Some 3], labels = None\<rparr> ''Roads''"
  using calculate_stats_nonempty_and_empty
          [of "\<lparr>cells = [Some (- 1), None, Some 3], labels = None\<rparr>" "''Roads''"
              "zone_of [- 1, 3]"]
        calculate_stats_nonempty_and_empty
          [of "\<lparr>cells = [], labels = None\<rparr>" "''Roads''" "zone_of [- 1, 3]"]
        calculate_stats_nonempty_and_empty
          [of "\<lparr>cells = [], labels = Some []\<rparr>" "''Roads''" "zone_of [- 1, 3]"]
  by (auto simp: table_of_def zone_of_def)

text \<open>
  The claim C5 as stated fails: the statistics of an empty zone (no risk-level column) are
  returned, with count 0 and \<open>nan\<close> for mean and median; nothing is raised.
\<close>

theorem empty_zone_statistics_are_returned:
  "\<not> isl (calculate_stats \<lparr>velocity = [], risk_level = None\<rparr> ''Harbour'')
   \<and> N_Points (projr (calculate_stats \<lparr>velocity = [], risk_level = None\<rparr> ''Harbour'')) = 0
   \<and> Mean_Velocity (projr (calculate_stats \<lparr>velocity = [], risk_level = None\<rparr> ''Harbour''))
       = NaN
   \<and> Median_Velocity (projr (calculate_stats \<lparr>velocity = [], risk_level = None\<rparr> ''Harbour''))
       = NaN"
  by (simp add: calculate_stats_def Let_def mean_def median_def)

section \<open>Comparison with the baseline\<close>

lemma comparison_entry_fields:
  "Difference (comparison_entry dublin_mean st) =
     float_sub (rnd (Mean_Velocity st)) (rnd dublin_mean)"
  "Pct_Difference (comparison_entry dublin_mean st) =
     float_mul (float_div (Difference (comparison_entry dublin_mean st)) (fabs (rnd dublin_mean)))
       (Fin 100)"
  "Assessment (comparison_entry dublin_mean st) =
     (if flt (Difference (comparison_entry dublin_mean st)) (Fin 0)
        then ''More stable (less subsidence)''
      else if fgt (Difference (comparison_entry dublin_mean st)) (Fin 0)
        then ''Less stable (more subsidence)''
      else ''Same as baseline'')"
  "Mean_Velocity_c (comparison_entry dublin_mean st) = Mean_Velocity st"
  "Dublin_Baseline (comparison_entry dublin_mean st) = dublin_mean"
  "Infrastructure_c (comparison_entry dublin_mean st) = Infrastructure st"
  by (simp_all add: comparison_entry_def Let_def)

lemma round_comparison_fields:
  "Assessment (round_comparison r) = Assessment r"
  "Difference (round_comparison r) = fround 2 (Difference r)"
  "Pct_Difference (round_comparison r) = fround 1 (Pct_Difference r)"
  "Mean_Velocity_c (round_comparison r) = Mean_Velocity_c r"
  "Dublin_Baseline (round_comparison r) = Dublin_Baseline r"
  "Infrastructure_c (round_comparison r) = Infrastructure_c r"
  by (simp_all add: round_comparison_def)

text \<open>Division of a value by the float zero, and what the rest of the loop makes of it.\<close>

lemma pct_of_zero_baseline:
  "float_mul (float_div x (Fin 0)) (Fin 100) =
     (case x of Fin d \<Rightarrow> if 0 < d then PInf else if d < 0 then NInf else NaN
      | PInf \<Rightarrow> PInf | NInf \<Rightarrow> NInf | NaN \<Rightarrow> NaN)"
  by (cases x) (simp_all add: float_mul_def float_div_def signed_inf_def)

lemma fround_2_float_033:
  "fround 2 (Fin (5944751508129055 / 2 ^ 54)) = Fin (5944751508129055 / 2 ^ 54)"
proof -
  have a: "rnd (Fin (5944751508129055 / 2 ^ 54)) = Fin (5944751508129055 / 2 ^ 54)"
    by (simp only: rnd.simps binary64_decimal_floats)
  have "binary64 (5944751508129055 / 2 ^ 54 * 10 ^ 2) = Fin 33"
    using binary64_decimal_floats(4) by simp
  then have b: "float_mul (Fin (5944751508129055 / 2 ^ 54)) (Fin (10 ^ 2)) = Fin 33"
    by (simp only: float_mul_def fmul.simps rnd.simps)
  have c: "frint (Fin 33) = Fin 33"
    by (simp add: rint_def)
  have d: "float_div (Fin 33) (Fin (10 ^ 2)) = Fin (5944751508129055 / 2 ^ 54)"
    using binary64_decimals(3) by (simp add: float_div_def)
  show ?thesis
    by (simp only: fround_def a b c d)
qed

text \<open>
  C3. For every class, the comparison loop computes Difference as the class mean minus the
  baseline mean, Pct_Difference as Difference divided by the absolute baseline mean times
  100, and the Assessment "More stable (less subsidence)" when Difference is negative,
  "Less stable (more subsidence)" when it is positive and "Same as baseline" otherwise.
  The three operations are float operations. When the two means are floats \<open>m\<close> and
  \<open>b\<close> (the point sets are not empty) and \<open>b\<close> is not zero, Difference is the float
  nearest to \<open>m - b\<close>, and when that is a number \<open>d\<close>, Pct_Difference is the float
  product with 100 of the float nearest to \<open>d / |b|\<close>, and the Assessment goes by the
  sign of \<open>d\<close>. With the floats nearest to -0.53 (baseline) and -0.2 (class) the
  Difference is the float nearest to 0.33 and the Assessment is the "Less stable" one (the
  instance below).
\<close>

theorem baseline_comparison_of_class:
  "Difference (comparison_entry dublin_mean st) =
     float_sub (rnd (Mean_Velocity st)) (rnd dublin_mean)
   \<and> Pct_Difference (comparison_entry dublin_mean st) =
       float_mul (float_div (Difference (comparison_entry dublin_mean st))
                    (fabs (rnd dublin_mean))) (Fin 100)
   \<and> Assessment (comparison_entry dublin_mean st) =
       (if flt (Difference (comparison_entry dublin_mean st)) (Fin 0)
          then ''More stable (less subsidence)''
        else if fgt (Difference (comparison_entry dublin_mean st)) (Fin 0)
          then ''Less stable (more subsidence)''
        else ''Same as baseline'')
   \<and> (Mean_Velocity st = Fin m \<and> binary64 m = Fin m \<and> dublin_mean = Fin b
        \<and> binary64 b = Fin b \<and> b \<noteq> 0 \<longrightarrow>
        Difference (comparison_entry dublin_mean st) = binary64 (m - b)
        \<and> (binary64 (m - b) = Fin d \<longrightarrow>
             Pct_Difference (comparison_entry dublin_mean st)
               = float_mul (binary64 (d / \<bar>b\<bar>)) (Fin 100)
             \<and> Assessment (comparison_entry dublin_mean st) =
                 (if d < 0 then ''More stable (less subsidence)''
                  else if 0 < d then ''Less stable (more subsidence)''
                  else ''Same as baseline'')))"
proof (intro conjI impI)
  show "Difference (comparison_entry dublin_mean st) =
     float_sub (rnd (Mean_Velocity st)) (rnd dublin_mean)"
    by (simp add: comparison_entry_fields)
  show "Pct_Difference (comparison_entry dublin_mean st) =
       float_mul (float_div (Difference (comparison_entry dublin_mean st))
                    (fabs (rnd dublin_mean))) (Fin 100)"
    by (simp add: comparison_entry_fields)
  show "Assessment (comparison_entry dublin_mean st) =
       (if flt (Difference (comparison_entry dublin_mean st)) (Fin 0)
          then ''More stable (less subsidence)''
        else if fgt (Difference (comparison_entry dublin_mean st)) (Fin 0)
          then ''Less stable (more subsidence)''
        else ''Same as baseline'')"
    by (simp add: comparison_entry_fields)
next
  assume h: "Mean_Velocity st = Fin m \<and> binary64 m = Fin m \<and> dublin_mean = Fin b
        \<and> binary64 b = Fin b \<and> b \<noteq> 0"
  then show diff: "Difference (comparison_entry dublin_mean st) = binary64 (m - b)"
    by (simp add: comparison_entry_fields float_sub_def)
  assume d: "binary64 (m - b) = Fin d"
  show "Pct_Difference (comparison_entry dublin_mean st)
               = float_mul (binary64 (d / \<bar>b\<bar>)) (Fin 100)"
    using h d diff by (simp add: comparison_entry_fields(2) float_div_def)
  show "Assessment (comparison_entry dublin_mean st) =
                 (if d < 0 then ''More stable (less subsidence)''
                  else if 0 < d then ''Less stable (more subsidence)''
                  else ''Same as baseline'')"
    using d diff by (simp add: comparison_entry_fields(3))
qed

theorem baseline_comparison_of_class_witness:
  "binary64 (- 2 / 10) = Fin (- 3602879701896397 / 2 ^ 54)
   \<and> binary64 (- 53 / 100) = Fin (- 2386907802506363 / 2 ^ 52)
   \<and> binary64 (33 / 100) = Fin (5944751508129055 / 2 ^ 54)
   \<and> Difference
       (comparison_entry (Fin (- 2386907802506363 / 2 ^ 52))
          (sample_stats ''Harbour'' (Fin (- 3602879701896397 / 2 ^ 54)) (Fin 7) (Fin 96)))
       = Fin (5944751508129055 / 2 ^ 54)
   \<and> Assessment
       (comparison_entry (Fin (- 2386907802506363 / 2 ^ 52))
          (sample_stats ''Harbour'' (Fin (- 3602879701896397 / 2 ^ 54)) (Fin 7) (Fin 96)))
       = ''Less stable (more subsidence)''
   \<and> Difference
       (round_comparison
          (comparison_entry (Fin (- 2386907802506363 / 2 ^ 52))
             (sample_stats ''Harbour'' (Fin (- 3602879701896397 / 2 ^ 54)) (Fin 7) (Fin 96))))
       = Fin (5944751508129055 / 2 ^ 54)"
proof -
  let ?m = "- 3602879701896397 / 2 ^ 54 :: real"
  let ?b = "- 2386907802506363 / 2 ^ 52 :: real"
  let ?d = "5944751508129055 / 2 ^ 54 :: real"
  let ?st = "sample_stats ''Harbour'' (Fin ?m) (Fin 7) (Fin 96)"
  have mean: "Mean_Velocity ?st = Fin ?m"
    by (simp add: sample_stats_def)
  have sub: "?m - ?b = ?d"
    by simp
  have d: "binary64 (?m - ?b) = Fin ?d"
    by (simp only: sub binary64_decimal_floats)
  have nz: "?b \<noteq> 0"
    by simp
  note th = baseline_comparison_of_class [where st = ?st and dublin_mean = "Fin ?b"
      and m = ?m and b = ?b and d = ?d]
  have hyp: "Mean_Velocity ?st = Fin ?m \<and> binary64 ?m = Fin ?m \<and> Fin ?b = Fin ?b
        \<and> binary64 ?b = Fin ?b \<and> ?b \<noteq> 0"
    using mean binary64_decimal_floats(1,2) nz by (intro conjI) (rule refl | assumption)+
  from th hyp have "Difference (comparison_entry (Fin ?b) ?st) = binary64 (?m - ?b)"
    by blast
  then have diff: "Difference (comparison_entry (Fin ?b) ?st) = Fin ?d"
    by (simp only: d)
  from th hyp d have "Assessment (comparison_entry (Fin ?b) ?st) =
                 (if ?d < 0 then ''More stable (less subsidence)''
                  else if 0 < ?d then ''Less stable (more subsidence)''
                  else ''Same as baseline'')"
    by blast
  then have assess:
    "Assessment (comparison_entry (Fin ?b) ?st) = ''Less stable (more subsidence)''"
    by simp
  have shown: "Difference (round_comparison (comparison_entry (Fin ?b) ?st)) = Fin ?d"
    by (simp only: round_comparison_fields diff fround_2_float_033)
  show ?thesis
    using binary64_decimals diff assess shown by (intro conjI) assumption+
qed

section \<open>The statistics script as a whole\<close>

lemma statistics_script_Inr:
  assumes "calculate_stats_cells railways ''Railways'' = Inr rs"
    and "calculate_stats_cells roads ''Roads'' = Inr ros"
    and "calculate_stats_cells harbour ''Harbour'' = Inr hs"
    and "calculate_stats_cells egms_all ''All Dublin (Baseline)'' = Inr ds"
  shows "statistics_script railways roads harbour egms_all =
           Inr (assess_risk (compare_with_baseline (create_summary_table
             \<lparr>railways_stats = rs, roads_stats = ros, harbour_stats = hs, dublin_stats = ds,
              summary_df = [], comparison_df = [], risk_df = []\<rparr>)))"
  using assms by (simp add: statistics_script_def)

lemma statistics_script_isl:
  "isl (statistics_script railways roads harbour egms_all) \<longleftrightarrow>
     isl (calculate_stats_cells railways ''Railways'') \<or> isl (calculate_stats_cells roads ''Roads'')
     \<or> isl (calculate_stats_cells harbour ''Harbour'')
     \<or> isl (calculate_stats_cells egms_all ''All Dublin (Baseline)'')"
  by (auto simp: statistics_script_def split: sum.splits)

text \<open>What each of the three steps writes, and what it leaves as it was.\<close>

lemma create_summary_table_fields:
  "summary_df (create_summary_table s) =
     map round_summary [dublin_stats s, railways_stats s, roads_stats s, harbour_stats s]"
  "comparison_df (create_summary_table s) = comparison_df s"
  "risk_df (create_summary_table s) = risk_df s"
  "railways_stats (create_summary_table s) = railways_stats s"
  "roads_stats (create_summary_table s) = roads_stats s"
  "harbour_stats (create_summary_table s) = harbour_stats s"
  "dublin_stats (create_summary_table s) = dublin_stats s"
  by (simp_all add: create_summary_table_def)

lemma compare_with_baseline_fields:
  "comparison_df (compare_with_baseline s) =
     map (\<lambda>st. round_comparison (comparison_entry (Mean_Velocity (dublin_stats s)) st))
       [railways_stats s, roads_stats s, harbour_stats s]"
  "summary_df (compare_with_baseline s) = summary_df s"
  "risk_df (compare_with_baseline s) = risk_df s"
  "railways_stats (compare_with_baseline s) = railways_stats s"
  "roads_stats (compare_with_baseline s) = roads_stats s"
  "harbour_stats (compare_with_baseline s) = harbour_stats s"
  "dublin_stats (compare_with_baseline s) = dublin_stats s"
  by (simp_all add: compare_with_baseline_def Let_def)

lemma assess_risk_fields:
  "risk_df (assess_risk s) =
     map risk_assessment_row [railways_stats s, roads_stats s, harbour_stats s]"
  "summary_df (assess_risk s) = summary_df s"
  "comparison_df (assess_risk s) = comparison_df s"
  "railways_stats (assess_risk s) = railways_stats s"
  "roads_stats (assess_risk s) = roads_stats s"
  "harbour_stats (assess_risk s) = harbour_stats s"
  "dublin_stats (assess_risk s) = dublin_stats s"
  by (simp_all add: assess_risk_def)

lemma round_summary_fields:
  "Mean_Velocity (round_summary st) = fround 2 (Mean_Velocity st)"
  "Median_Velocity (round_summary st) = fround 2 (Median_Velocity st)"
  "Std_Velocity (round_summary st) = fround 2 (Std_Velocity st)"
  "Min_Velocity (round_summary st) = fround 2 (Min_Velocity st)"
  "Max_Velocity (round_summary st) = fround 2 (Max_Velocity st)"
  "Range_Velocity (round_summary st) = fround 2 (Range_Velocity st)"
  "Pct_Subsiding (round_summary st) = fround 2 (Pct_Subsiding st)"
  "Pct_Uplifting (round_summary st) = fround 2 (Pct_Uplifting st)"
  "Pct_Stable (round_summary st) = fround 2 (Pct_Stable st)"
  "Infrastructure (round_summary st) = Infrastructure st"
  "N_Points (round_summary st) = N_Points st"
  "risk_counts (round_summary st) = risk_counts st"
  by (simp_all add: round_summary_def)

lemma risk_assessment_row_columns:
  "Mean_Velocity_mm_yr (risk_assessment_row st) = Mean_Velocity st"
  "Max_Velocity_mm_yr (risk_assessment_row st) = Max_Velocity st"
  "Pct_Stable_r (risk_assessment_row st) = Pct_Stable st"
  "Infrastructure_r (risk_assessment_row st) = Infrastructure st"
  by (simp_all add: risk_assessment_row_def Let_def split: prod.splits)

text \<open>Rounding of the values that the sample runs meet.\<close>

lemma fround_samples:
  "fround 2 (Fin (1 / 2)) = Fin (1 / 2)" "fround 2 (Fin (1281 / 256)) = Fin 5"
  "fround 2 (Fin 1) = Fin 1" "fround 2 (Fin 0) = Fin 0" "fround 2 (Fin 90) = Fin 90"
  "fround 2 (Fin 100) = Fin 100" "fround 2 (Fin (1153 / 256)) = Fin (9 / 2)"
  "fround 2 (Fin (- (1 / 2))) = Fin (- (1 / 2))"
  by (simp_all add: fround_def float_mul_def float_div_def binary64_samples
        binary64_sample_fractions binary64_zero rint_def)

text \<open>
  C4 (as amended). The percent-difference computation never fails: the script fails only
  where a statistics calculation fails, and the comparison step is a total function of the
  records. If the baseline mean is exactly 0, Pct_Difference is \<open>inf\<close> when the
  Difference is positive, \<open>-inf\<close> when it is negative and \<open>nan\<close> when it is zero
  or \<open>nan\<close> (for a class whose mean is the float \<open>m\<close> the Difference is \<open>m\<close>),
  and these values stand in the comparison table. For every baseline mean, zero or not,
  Pct_Difference is the float result of Difference divided by the absolute baseline mean,
  times 100.
\<close>

theorem pct_difference_never_raises:
  "(isl (statistics_script railways roads harbour egms_all) \<longleftrightarrow>
      isl (calculate_stats_cells railways ''Railways'') \<or> isl (calculate_stats_cells roads ''Roads'')
      \<or> isl (calculate_stats_cells harbour ''Harbour'')
      \<or> isl (calculate_stats_cells egms_all ''All Dublin (Baseline)''))
   \<and> comparison_df (compare_with_baseline s) =
       map (\<lambda>st. round_comparison (comparison_entry (Mean_Velocity (dublin_stats s)) st))
         [railways_stats s, roads_stats s, harbour_stats s]
   \<and> Pct_Difference (comparison_entry dublin_mean st) =
       float_mul (float_div (Difference (comparison_entry dublin_mean st))
                    (fabs (rnd dublin_mean))) (Fin 100)
   \<and> (Mean_Velocity (dublin_stats s) = Fin 0 \<longrightarrow>
        map Pct_Difference (comparison_df (compare_with_baseline s)) =
          map (\<lambda>st. case Difference (comparison_entry (Fin 0) st) of
                       Fin d \<Rightarrow> if 0 < d then PInf else if d < 0 then NInf else NaN
                     | PInf \<Rightarrow> PInf | NInf \<Rightarrow> NInf | NaN \<Rightarrow> NaN)
            [railways_stats s, roads_stats s, harbour_stats s])
   \<and> (Mean_Velocity st = Fin m \<and> binary64 m = Fin m \<longrightarrow>
        Difference (comparison_entry (Fin 0) st) = Fin m
        \<and> Pct_Difference (comparison_entry (Fin 0) st) =
            (if 0 < m then PInf else if m < 0 then NInf else NaN))"
proof -
  have zero: "fround k (Pct_Difference (comparison_entry (Fin 0) x)) =
     (case Difference (comparison_entry (Fin 0) x) of
        Fin d \<Rightarrow> if 0 < d then PInf else if d < 0 then NInf else NaN
      | PInf \<Rightarrow> PInf | NInf \<Rightarrow> NInf | NaN \<Rightarrow> NaN)" for x k
    by (cases "Difference (comparison_entry (Fin 0) x)")
       (simp_all add: comparison_entry_fields(2) pct_of_zero_baseline)
  have table: "Mean_Velocity (dublin_stats s) = Fin 0 \<Longrightarrow>
        map Pct_Difference (comparison_df (compare_with_baseline s)) =
          map (\<lambda>st. case Difference (comparison_entry (Fin 0) st) of
                       Fin d \<Rightarrow> if 0 < d then PInf else if d < 0 then NInf else NaN
                     | PInf \<Rightarrow> PInf | NInf \<Rightarrow> NInf | NaN \<Rightarrow> NaN)
            [railways_stats s, roads_stats s, harbour_stats s]"
    by (simp add: compare_with_baseline_fields round_comparison_fields zero)
  have float_mean: "Difference (comparison_entry (Fin 0) st) = Fin m
        \<and> Pct_Difference (comparison_entry (Fin 0) st) =
            (if 0 < m then PInf else if m < 0 then NInf else NaN)"
    if "Mean_Velocity st = Fin m \<and> binary64 m = Fin m"
  proof -
    have d: "Difference (comparison_entry (Fin 0) st) = Fin m"
      using that by (simp add: comparison_entry_fields(1) float_sub_def)
    show ?thesis
      using d by (simp add: comparison_entry_fields(2) pct_of_zero_baseline)
  qed
  show ?thesis
    using statistics_script_isl [of railways roads harbour egms_all]
      compare_with_baseline_fields(1) [of s] comparison_entry_fields(2) [of dublin_mean st]
      table float_mean
    by blast
qed

theorem pct_difference_never_raises_witness:
  "\<not> isl (statistics_script (table_of (zone_of [3])) (table_of (zone_of [- 2]))
        (table_of (zone_of [0])) (table_of (zone_of [- 4, 4])))
   \<and> Mean_Velocity (dublin_stats zero_baseline_records) = Fin 0
   \<and> map Pct_Difference (comparison_df (compare_with_baseline zero_baseline_records))
       = [PInf, NInf, NaN]"
proof -
  note th = pct_difference_never_raises
      [where railways = "table_of (zone_of [3])" and roads = "table_of (zone_of [- 2])"
         and harbour = "table_of (zone_of [0])" and egms_all = "table_of (zone_of [- 4, 4])"
         and s = zero_baseline_records]
  have ok: "\<not> isl (calculate_stats_cells (table_of (zone_of vs)) name)" for vs name
    by (simp add: calculate_stats_table_of calculate_stats_def zone_of_def Let_def)
  from th ok
  have run: "\<not> isl (statistics_script (table_of (zone_of [3])) (table_of (zone_of [- 2]))
        (table_of (zone_of [0])) (table_of (zone_of [- 4, 4])))"
    by blast
  have base: "Mean_Velocity (dublin_stats zero_baseline_records) = Fin 0"
    by (simp add: zero_baseline_records_def Mean_Velocity_zone_of mean_def)
  from th base
  have "map Pct_Difference (comparison_df (compare_with_baseline zero_baseline_records)) =
          map (\<lambda>st. case Difference (comparison_entry (Fin 0) st) of
                       Fin d \<Rightarrow> if 0 < d then PInf else if d < 0 then NInf else NaN
                     | PInf \<Rightarrow> PInf | NInf \<Rightarrow> NInf | NaN \<Rightarrow> NaN)
            [railways_stats zero_baseline_records, roads_stats zero_baseline_records,
             harbour_stats zero_baseline_records]"
    by blast
  then have "map Pct_Difference (comparison_df (compare_with_baseline zero_baseline_records))
       = [PInf, NInf, NaN]"
    by (simp add: zero_baseline_records_def comparison_entry_fields(1) Mean_Velocity_zone_of
          mean_def float_sub_def binary64_samples binary64_zero)
  with run base show ?thesis
    by blast
qed

text \<open>
  The claim C4 as stated fails: with a baseline of mean exactly 0 (the velocities -1 and 1)
  the script completes, and its comparison table holds \<open>inf\<close>, \<open>-inf\<close> and \<open>nan\<close> in
  the Pct_Difference column.
\<close>

theorem zero_baseline_emits_infinity:
  "\<not> isl (statistics_script \<lparr>cells = [Some 1], labels = None\<rparr>
        \<lparr>cells = [Some (- 1)], labels = None\<rparr> \<lparr>cells = [Some 0], labels = None\<rparr>
        \<lparr>cells = [Some (- 1), Some 1], labels = None\<rparr>)
   \<and> Mean_Velocity (dublin_stats (projr (statistics_script \<lparr>cells = [Some 1], labels = None\<rparr>
        \<lparr>cells = [Some (- 1)], labels = None\<rparr> \<lparr>cells = [Some 0], labels = None\<rparr>
        \<lparr>cells = [Some (- 1), Some 1], labels = None\<rparr>))) = Fin 0
   \<and> map Pct_Difference (comparison_df (projr (statistics_script
        \<lparr>cells = [Some 1], labels = None\<rparr>
        \<lparr>cells = [Some (- 1)], labels = None\<rparr> \<lparr>cells = [Some 0], labels = None\<rparr>
        \<lparr>cells = [Some (- 1), Some 1], labels = None\<rparr>)))
     = [PInf, NInf, NaN]"
  by (simp add: statistics_script_def calculate_stats_cells_def present_def Let_def mean_def
        assess_risk_def compare_with_baseline_def create_summary_table_def
        comparison_entry_def round_comparison_def float_sub_def float_div_def float_mul_def
        binary64_samples binary64_zero signed_inf_def)

lemma sample_records_values:
  "Mean_Velocity (railways_stats sample_records) = Fin (1281 / 256)"
  "Pct_Stable (railways_stats sample_records) = Fin 90"
  "Mean_Velocity (roads_stats sample_records) = Fin 1"
  "Pct_Stable (roads_stats sample_records) = Fin 100"
  "Mean_Velocity (harbour_stats sample_records) = Fin 0"
  "Pct_Stable (harbour_stats sample_records) = Fin 100"
  "Mean_Velocity (dublin_stats sample_records) = Fin (1 / 2)"
  "Pct_Stable (dublin_stats sample_records) = Fin 100"
  by (simp_all add: sample_records_def Mean_Velocity_zone_of Pct_Stable_zone_of near_five_def
        mean_def pct_def)

lemma sample_records_differences:
  "Difference (comparison_entry (Fin (1 / 2)) (railways_stats sample_records))
     = Fin (1153 / 256)"
  "Difference (comparison_entry (Fin (1 / 2)) (roads_stats sample_records)) = Fin (1 / 2)"
  "Difference (comparison_entry (Fin (1 / 2)) (harbour_stats sample_records))
     = Fin (- (1 / 2))"
  by (simp_all add: comparison_entry_fields(1) sample_records_values float_sub_def
        binary64_samples binary64_sample_fractions)

text \<open>
  C10 (as amended). Rounding touches the tables only and never feeds back. The script
  runs three steps on the four statistics records: the summary table is built and rounded
  to two decimals (before either loop runs), then the comparison loop runs and the
  Difference and Pct_Difference columns of its table are rounded to two and to one decimal
  (before the risk loop runs), then the risk loop runs. No step changes a record, each
  step writes its own table only, and both loops read the records: the tier of each class
  is the classification of its unrounded record, the Assessment is that of the unrounded
  means, and the risk table carries the unrounded mean and stable share.
\<close>

theorem rounding_is_presentation_only:
  "railways_stats (assess_risk (compare_with_baseline (create_summary_table s)))
     = railways_stats s
   \<and> roads_stats (assess_risk (compare_with_baseline (create_summary_table s))) = roads_stats s
   \<and> harbour_stats (assess_risk (compare_with_baseline (create_summary_table s)))
       = harbour_stats s
   \<and> dublin_stats (assess_risk (compare_with_baseline (create_summary_table s)))
       = dublin_stats s
   \<and> summary_df (create_summary_table s) =
       map round_summary [dublin_stats s, railways_stats s, roads_stats s, harbour_stats s]
   \<and> comparison_df (create_summary_table s) = comparison_df s
   \<and> risk_df (create_summary_table s) = risk_df s
   \<and> comparison_df (compare_with_baseline s) =
       map (\<lambda>st. round_comparison (comparison_entry (Mean_Velocity (dublin_stats s)) st))
         [railways_stats s, roads_stats s, harbour_stats s]
   \<and> summary_df (compare_with_baseline s) = summary_df s
   \<and> risk_df (compare_with_baseline s) = risk_df s
   \<and> risk_df (assess_risk s) =
       map risk_assessment_row [railways_stats s, roads_stats s, harbour_stats s]
   \<and> summary_df (assess_risk s) = summary_df s
   \<and> comparison_df (assess_risk s) = comparison_df s
   \<and> map Risk_Level (risk_df (assess_risk (compare_with_baseline (create_summary_table s)))) =
       map (\<lambda>st. Risk_Level (risk_assessment_row st))
         [railways_stats s, roads_stats s, harbour_stats s]
   \<and> map Mean_Velocity_mm_yr
         (risk_df (assess_risk (compare_with_baseline (create_summary_table s)))) =
       map Mean_Velocity [railways_stats s, roads_stats s, harbour_stats s]
   \<and> map Pct_Stable_r
         (risk_df (assess_risk (compare_with_baseline (create_summary_table s)))) =
       map Pct_Stable [railways_stats s, roads_stats s, harbour_stats s]
   \<and> map Assessment
         (comparison_df (assess_risk (compare_with_baseline (create_summary_table s)))) =
       map (\<lambda>st. Assessment (comparison_entry (Mean_Velocity (dublin_stats s)) st))
         [railways_stats s, roads_stats s, harbour_stats s]
   \<and> map Difference
         (comparison_df (assess_risk (compare_with_baseline (create_summary_table s)))) =
       map (\<lambda>st. fround 2 (Difference (comparison_entry (Mean_Velocity (dublin_stats s)) st)))
         [railways_stats s, roads_stats s, harbour_stats s]
   \<and> map Pct_Difference
         (comparison_df (assess_risk (compare_with_baseline (create_summary_table s)))) =
       map (\<lambda>st. fround 1
               (Pct_Difference (comparison_entry (Mean_Velocity (dublin_stats s)) st)))
         [railways_stats s, roads_stats s, harbour_stats s]
   \<and> map Mean_Velocity
         (summary_df (assess_risk (compare_with_baseline (create_summary_table s)))) =
       map (\<lambda>st. fround 2 (Mean_Velocity st))
         [dublin_stats s, railways_stats s, roads_stats s, harbour_stats s]
   \<and> map Pct_Stable
         (summary_df (assess_risk (compare_with_baseline (create_summary_table s)))) =
       map (\<lambda>st. fround 2 (Pct_Stable st))
         [dublin_stats s, railways_stats s, roads_stats s, harbour_stats s]
   \<and> (calculate_stats_cells railways ''Railways'' = Inr rs \<and> calculate_stats_cells roads ''Roads'' = Inr ros
        \<and> calculate_stats_cells harbour ''Harbour'' = Inr hs
        \<and> calculate_stats_cells egms_all ''All Dublin (Baseline)'' = Inr ds \<longrightarrow>
        statistics_script railways roads harbour egms_all =
          Inr (assess_risk (compare_with_baseline (create_summary_table
            \<lparr>railways_stats = rs, roads_stats = ros, harbour_stats = hs, dublin_stats = ds,
             summary_df = [], comparison_df = [], risk_df = []\<rparr>))))"
proof -
  have script: "statistics_script railways roads harbour egms_all =
          Inr (assess_risk (compare_with_baseline (create_summary_table
            \<lparr>railways_stats = rs, roads_stats = ros, harbour_stats = hs, dublin_stats = ds,
             summary_df = [], comparison_df = [], risk_df = []\<rparr>)))"
    if "calculate_stats_cells railways ''Railways'' = Inr rs \<and> calculate_stats_cells roads ''Roads'' = Inr ros
        \<and> calculate_stats_cells harbour ''Harbour'' = Inr hs
        \<and> calculate_stats_cells egms_all ''All Dublin (Baseline)'' = Inr ds"
    using that by (simp add: statistics_script_Inr)
  show ?thesis
    using script
    by (simp add: create_summary_table_fields compare_with_baseline_fields assess_risk_fields
          round_comparison_fields round_summary_fields risk_assessment_row_columns)
qed

theorem rounding_is_presentation_only_witness:
  "statistics_script (table_of (zone_of near_five)) (table_of (zone_of [1]))
       (table_of (zone_of [0])) (table_of (zone_of [- 1, 2]))
     = Inr (assess_risk (compare_with_baseline (create_summary_table sample_records)))
   \<and> Mean_Velocity (railways_stats sample_records) = Fin (1281 / 256)
   \<and> map Risk_Level
       (risk_df (assess_risk (compare_with_baseline (create_summary_table sample_records))))
       = [''ELEVATED'', ''LOW'', ''LOW'']
   \<and> map Mean_Velocity
       (summary_df (assess_risk (compare_with_baseline (create_summary_table sample_records))))
       = [Fin (1 / 2), Fin 5, Fin 1, Fin 0]
   \<and> map (\<lambda>st. Risk_Level (risk_assessment_row st))
       (summary_df (assess_risk (compare_with_baseline (create_summary_table sample_records))))
       = [''LOW'', ''MODERATE'', ''LOW'', ''LOW'']
   \<and> map Assessment
       (comparison_df (assess_risk (compare_with_baseline (create_summary_table sample_records))))
       = [''Less stable (more subsidence)'', ''Less stable (more subsidence)'',
          ''More stable (less subsidence)'']
   \<and> map Difference
       (comparison_df (assess_risk (compare_with_baseline (create_summary_table sample_records))))
       = [Fin (9 / 2), Fin (1 / 2), Fin (- (1 / 2))]"
proof -
  let ?s = "assess_risk (compare_with_baseline (create_summary_table sample_records))"
  note th = rounding_is_presentation_only
      [where s = sample_records and railways = "table_of (zone_of near_five)"
         and roads = "table_of (zone_of [1])" and harbour = "table_of (zone_of [0])"
         and egms_all = "table_of (zone_of [- 1, 2])"
         and rs = "railways_stats sample_records" and ros = "roads_stats sample_records"
         and hs = "harbour_stats sample_records" and ds = "dublin_stats sample_records"]
  have recs: "calculate_stats_cells (table_of (zone_of near_five)) ''Railways''
          = Inr (railways_stats sample_records)
      \<and> calculate_stats_cells (table_of (zone_of [1])) ''Roads''
          = Inr (roads_stats sample_records)
      \<and> calculate_stats_cells (table_of (zone_of [0])) ''Harbour''
          = Inr (harbour_stats sample_records)
      \<and> calculate_stats_cells (table_of (zone_of [- 1, 2])) ''All Dublin (Baseline)''
          = Inr (dublin_stats sample_records)"
    using calculate_stats_zone_of by (simp add: sample_records_def calculate_stats_table_of)
  have same: "\<lparr>railways_stats = railways_stats sample_records,
       roads_stats = roads_stats sample_records, harbour_stats = harbour_stats sample_records,
       dublin_stats = dublin_stats sample_records,
       summary_df = [], comparison_df = [], risk_df = []\<rparr> = sample_records"
    by (simp add: sample_records_def)
  from th recs have "statistics_script (table_of (zone_of near_five)) (table_of (zone_of [1]))
      (table_of (zone_of [0])) (table_of (zone_of [- 1, 2])) = Inr (assess_risk (compare_with_baseline (create_summary_table
            \<lparr>railways_stats = railways_stats sample_records,
             roads_stats = roads_stats sample_records,
             harbour_stats = harbour_stats sample_records,
             dublin_stats = dublin_stats sample_records,
             summary_df = [], comparison_df = [], risk_df = []\<rparr>)))"
    by blast
  then have run: "statistics_script (table_of (zone_of near_five)) (table_of (zone_of [1]))
      (table_of (zone_of [0])) (table_of (zone_of [- 1, 2])) = Inr ?s"
    by (simp only: same)
  from th have "map Risk_Level (risk_df ?s) =
       map (\<lambda>st. Risk_Level (risk_assessment_row st))
         [railways_stats sample_records, roads_stats sample_records,
          harbour_stats sample_records]"
    by blast
  then have tiers: "map Risk_Level (risk_df ?s) = [''ELEVATED'', ''LOW'', ''LOW'']"
    by (simp add: Risk_Level_row sample_records_values)
  from th have "map Mean_Velocity (summary_df ?s) =
       map (\<lambda>st. fround 2 (Mean_Velocity st))
         [dublin_stats sample_records, railways_stats sample_records,
          roads_stats sample_records, harbour_stats sample_records]"
    by blast
  then have shown: "map Mean_Velocity (summary_df ?s) = [Fin (1 / 2), Fin 5, Fin 1, Fin 0]"
    by (simp add: sample_records_values fround_samples)
  from th have "summary_df ?s = summary_df (create_summary_table sample_records)"
    by (simp add: compare_with_baseline_fields assess_risk_fields)
  with th have "summary_df ?s =
       map round_summary [dublin_stats sample_records, railways_stats sample_records,
         roads_stats sample_records, harbour_stats sample_records]"
    by (simp only:)
  then have would: "map (\<lambda>st. Risk_Level (risk_assessment_row st)) (summary_df ?s)
       = [''LOW'', ''MODERATE'', ''LOW'', ''LOW'']"
    by (simp add: Risk_Level_row round_summary_fields sample_records_values fround_samples)
  from th have "map Assessment (comparison_df ?s) =
       map (\<lambda>st. Assessment (comparison_entry (Mean_Velocity (dublin_stats sample_records)) st))
         [railways_stats sample_records, roads_stats sample_records,
          harbour_stats sample_records]"
    by blast
  then have assess: "map Assessment (comparison_df ?s)
       = [''Less stable (more subsidence)'', ''Less stable (more subsidence)'',
          ''More stable (less subsidence)'']"
    by (simp add: comparison_entry_fields(3) sample_records_values sample_records_differences)
  from th have "map Difference (comparison_df ?s) =
       map (\<lambda>st. fround 2
               (Difference (comparison_entry (Mean_Velocity (dublin_stats sample_records)) st)))
         [railways_stats sample_records, roads_stats sample_records,
          harbour_stats sample_records]"
    by blast
  then have diffs: "map Difference (comparison_df ?s)
       = [Fin (9 / 2), Fin (1 / 2), Fin (- (1 / 2))]"
    by (simp add: sample_records_values sample_records_differences fround_samples)
  show ?thesis
    using run sample_records_values(1) tiers shown would assess diffs
    by (intro conjI) assumption+
qed

text \<open>
  The claim C10 as stated fails in its order of events: the rounding is not applied after
  the tier and the Assessment have been determined. After the first step of the sample
  run the summary table is rounded (the railway mean 5.00390625 stands there as 5) while
  the comparison table and the risk table are still empty; after the second step the
  Difference column is rounded while the risk table is still empty.
\<close>

theorem rounding_precedes_classification:
  "statistics_script (table_of (zone_of near_five)) (table_of (zone_of [1]))
       (table_of (zone_of [0])) (table_of (zone_of [- 1, 2]))
     = Inr (assess_risk (compare_with_baseline (create_summary_table sample_records)))
   \<and> Mean_Velocity (railways_stats sample_records) = Fin (1281 / 256)
   \<and> map Mean_Velocity (summary_df (create_summary_table sample_records))
       = [Fin (1 / 2), Fin 5, Fin 1, Fin 0]
   \<and> comparison_df (create_summary_table sample_records) = []
   \<and> risk_df (create_summary_table sample_records) = []
   \<and> map Difference (comparison_df (compare_with_baseline (create_summary_table sample_records)))
       = [Fin (9 / 2), Fin (1 / 2), Fin (- (1 / 2))]
   \<and> risk_df (compare_with_baseline (create_summary_table sample_records)) = []
   \<and> map Risk_Level
       (risk_df (assess_risk (compare_with_baseline (create_summary_table sample_records))))
       = [''ELEVATED'', ''LOW'', ''LOW'']"
proof -
  have same: "\<lparr>railways_stats = railways_stats sample_records,
       roads_stats = roads_stats sample_records, harbour_stats = harbour_stats sample_records,
       dublin_stats = dublin_stats sample_records,
       summary_df = [], comparison_df = [], risk_df = []\<rparr> = sample_records"
    by (simp add: sample_records_def)
  have "statistics_script (table_of (zone_of near_five)) (table_of (zone_of [1]))
       (table_of (zone_of [0])) (table_of (zone_of [- 1, 2]))
     = Inr (assess_risk (compare_with_baseline (create_summary_table
            \<lparr>railways_stats = railways_stats sample_records,
             roads_stats = roads_stats sample_records,
             harbour_stats = harbour_stats sample_records,
             dublin_stats = dublin_stats sample_records,
             summary_df = [], comparison_df = [], risk_df = []\<rparr>)))"
    using calculate_stats_zone_of
    by (intro statistics_script_Inr) (simp_all add: sample_records_def calculate_stats_table_of)
  then have run: "statistics_script (table_of (zone_of near_five)) (table_of (zone_of [1]))
       (table_of (zone_of [0])) (table_of (zone_of [- 1, 2]))
     = Inr (assess_risk (compare_with_baseline (create_summary_table sample_records)))"
    by (simp only: same)
  have empty: "comparison_df sample_records = []" "risk_df sample_records = []"
    by (simp_all add: sample_records_def)
  have a: "map Mean_Velocity (summary_df (create_summary_table sample_records))
       = [Fin (1 / 2), Fin 5, Fin 1, Fin 0]"
    by (simp add: create_summary_table_fields round_summary_fields sample_records_values
          fround_samples)
  have b: "comparison_df (create_summary_table sample_records) = []"
    "risk_df (create_summary_table sample_records) = []"
    "risk_df (compare_with_baseline (create_summary_table sample_records)) = []"
    by (simp_all add: create_summary_table_fields compare_with_baseline_fields empty)
  have c: "map Difference
      (comparison_df (compare_with_baseline (create_summary_table sample_records)))
       = [Fin (9 / 2), Fin (1 / 2), Fin (- (1 / 2))]"
    by (simp add: create_summary_table_fields compare_with_baseline_fields
          round_comparison_fields sample_records_values sample_records_differences
          fround_samples)
  have d: "map Risk_Level
       (risk_df (assess_risk (compare_with_baseline (create_summary_table sample_records))))
       = [''ELEVATED'', ''LOW'', ''LOW'']"
    by (simp add: create_summary_table_fields compare_with_baseline_fields assess_risk_fields
          Risk_Level_row sample_records_values)
  show ?thesis
    using run sample_records_values(1) a b c d by (intro conjI) assumption+
qed

section \<open>Buffers: the harbour and the dissolve\<close>

lemma dissolve_single_type:
  assumes "rows \<noteq> []" and "\<And>r. r \<in> set rows \<Longrightarrow> infra_type r = k"
  shows "dissolve lib rows =
           [\<lparr>geometry = unary_union lib (map geometry rows),
             attributes = (\<lambda>c. first_non_null (map (\<lambda>r. attributes r c) rows)),
             infra_type = k, buffer_m = buffer_m (hd rows)\<rparr>]"
proof -
  have keys: "infra_type ` set rows = {k}"
    using assms by (cases rows) auto
  have grp: "filter (\<lambda>r. infra_type r = k) rows = rows"
    using assms(2) by (simp add: filter_id_conv)
  show ?thesis
    by (simp add: dissolve_def keys grp Let_def)
qed

lemma harbour_dissolved_single:
  assumes "fs \<noteq> []"
  shows "dissolve lib (harbour_buffer_of fs) =
           [\<lparr>geometry = unary_union lib (map geometry fs),
             attributes = (\<lambda>c. first_non_null (map (\<lambda>f. attributes f c) fs)),
             infra_type = ''Harbour'', buffer_m = 0\<rparr>]"
proof -
  have "dissolve lib (harbour_buffer_of fs) =
          [\<lparr>geometry = unary_union lib (map geometry (harbour_buffer_of fs)),
            attributes = (\<lambda>c. first_non_null (map (\<lambda>r. attributes r c) (harbour_buffer_of fs))),
            infra_type = ''Harbour'', buffer_m = buffer_m (hd (harbour_buffer_of fs))\<rparr>]"
    using assms by (intro dissolve_single_type) (auto simp: harbour_buffer_of_def)
  moreover have "buffer_m (hd (harbour_buffer_of fs)) = 0"
    and "map geometry (harbour_buffer_of fs) = map geometry fs"
    and "\<And>c. map (\<lambda>r. attributes r c) (harbour_buffer_of fs) = map (\<lambda>f. attributes f c) fs"
    using assms by (simp_all add: harbour_buffer_of_def hd_map comp_def)
  ultimately show ?thesis
    by simp
qed

lemma railways_dissolved_single:
  assumes "fs \<noteq> []"
  shows "dissolve lib (railways_buffer_of lib fs) =
           [\<lparr>geometry = unary_union lib (map (\<lambda>f. buffer lib (geometry f) 50) fs),
             attributes = (\<lambda>c. first_non_null (map (\<lambda>f. attributes f c) fs)),
             infra_type = ''Railways'', buffer_m = 50\<rparr>]"
proof -
  have "dissolve lib (railways_buffer_of lib fs) =
          [\<lparr>geometry = unary_union lib (map geometry (railways_buffer_of lib fs)),
            attributes =
              (\<lambda>c. first_non_null (map (\<lambda>r. attributes r c) (railways_buffer_of lib fs))),
            infra_type = ''Railways'', buffer_m = buffer_m (hd (railways_buffer_of lib fs))\<rparr>]"
    using assms by (intro dissolve_single_type) (auto simp: railways_buffer_of_def)
  moreover have "buffer_m (hd (railways_buffer_of lib fs)) = 50"
    and "map geometry (railways_buffer_of lib fs) = map (\<lambda>f. buffer lib (geometry f) 50) fs"
    and "\<And>c. map (\<lambda>r. attributes r c) (railways_buffer_of lib fs)
           = map (\<lambda>f. attributes f c) fs"
    using assms by (simp_all add: railways_buffer_of_def hd_map BUFFER_RAILWAYS_def comp_def)
  ultimately show ?thesis
    by simp
qed

lemma roads_dissolved_single:
  assumes "fs \<noteq> []"
  shows "dissolve lib (roads_buffer_of lib fs) =
           [\<lparr>geometry = unary_union lib (map (\<lambda>f. buffer lib (geometry f) 30) fs),
             attributes = (\<lambda>c. first_non_null (map (\<lambda>f. attributes f c) fs)),
             infra_type = ''Roads'', buffer_m = 30\<rparr>]"
proof -
  have "dissolve lib (roads_buffer_of lib fs) =
          [\<lparr>geometry = unary_union lib (map geometry (roads_buffer_of lib fs)),
            attributes =
              (\<lambda>c. first_non_null (map (\<lambda>r. attributes r c) (roads_buffer_of lib fs))),
            infra_type = ''Roads'', buffer_m = buffer_m (hd (roads_buffer_of lib fs))\<rparr>]"
    using assms by (intro dissolve_single_type) (auto simp: roads_buffer_of_def)
  moreover have "buffer_m (hd (roads_buffer_of lib fs)) = 30"
    and "map geometry (roads_buffer_of lib fs) = map (\<lambda>f. buffer lib (geometry f) 30) fs"
    and "\<And>c. map (\<lambda>r. attributes r c) (roads_buffer_of lib fs) = map (\<lambda>f. attributes f c) fs"
    using assms by (simp_all add: roads_buffer_of_def hd_map BUFFER_ROADS_def comp_def)
  ultimately show ?thesis
    by simp
qed

lemma reproject_geometry:
  "map geometry (reproject lib fs) = map (\<lambda>f. to_crs lib (geometry f)) fs"
  by (simp add: reproject_def comp_def)

lemma reproject_attributes:
  "map (\<lambda>f. attributes f c) (reproject lib fs) = map (\<lambda>f. attributes f c) fs"
  by (simp add: reproject_def comp_def)

lemma reproject_buffer:
  "map (\<lambda>f. buffer lib (geometry f) r) (reproject lib fs) =
     map (\<lambda>f. buffer lib (to_crs lib (geometry f)) r) fs"
  by (simp add: reproject_def comp_def)

lemma reproject_Nil: "reproject lib fs = [] \<longleftrightarrow> fs = []"
  by (simp add: reproject_def)

lemma create_buffers_fields:
  "harbour_buffer (create_buffers lib roads railways harbour)
     = harbour_buffer_of (reproject lib harbour)"
  "railways_buffer (create_buffers lib roads railways harbour)
     = railways_buffer_of lib (reproject lib railways)"
  "roads_buffer (create_buffers lib roads railways harbour)
     = roads_buffer_of lib (reproject lib roads)"
  "harbour_dissolved (create_buffers lib roads railways harbour)
     = dissolve lib (harbour_buffer_of (reproject lib harbour))"
  "railways_dissolved (create_buffers lib roads railways harbour)
     = dissolve lib (railways_buffer_of lib (reproject lib railways))"
  "roads_dissolved (create_buffers lib roads railways harbour)
     = dissolve lib (roads_buffer_of lib (reproject lib roads))"
  by (simp_all add: create_buffers_def Let_def)

lemma line_lib_fields:
  "to_crs line_lib g = (\<lambda>x. x + 100) ` g"
  "buffer line_lib g r = g \<union> (\<lambda>x. x + int r) ` g \<union> (\<lambda>x. x - int r) ` g"
  "unary_union line_lib gs = \<Union> (set gs)"
  by (simp_all add: line_lib_def)

text \<open>
  C7. The harbour rows get no buffer: the geometry of every harbour row is the reprojected
  geometry of the input feature, unchanged, while the geometry of every railway row and of
  every road row is the 50 m and the 30 m buffer of the reprojected geometry. The dissolve
  still merges the harbour rows, and it is the same \<open>dissolve\<close> for the three classes:
  for a non-empty layer the dissolved class is one zone, whose geometry is the union of the
  geometries of all the rows of the class (reprojected features for the harbour, their
  buffers for railways and roads), and whose other columns hold the first value of the
  layer that is not null.
\<close>

theorem harbour_identity_and_dissolve:
  "map geometry (harbour_buffer (create_buffers lib roads railways harbour)) =
     map (\<lambda>f. to_crs lib (geometry f)) harbour
   \<and> map geometry (railways_buffer (create_buffers lib roads railways harbour)) =
     map (\<lambda>f. buffer lib (to_crs lib (geometry f)) 50) railways
   \<and> map geometry (roads_buffer (create_buffers lib roads railways harbour)) =
     map (\<lambda>f. buffer lib (to_crs lib (geometry f)) 30) roads
   \<and> harbour_dissolved (create_buffers lib roads railways harbour) =
       dissolve lib (harbour_buffer (create_buffers lib roads railways harbour))
   \<and> railways_dissolved (create_buffers lib roads railways harbour) =
       dissolve lib (railways_buffer (create_buffers lib roads railways harbour))
   \<and> roads_dissolved (create_buffers lib roads railways harbour) =
       dissolve lib (roads_buffer (create_buffers lib roads railways harbour))
   \<and> (harbour \<noteq> [] \<longrightarrow>
        harbour_dissolved (create_buffers lib roads railways harbour) =
          [\<lparr>geometry = unary_union lib (map (\<lambda>f. to_crs lib (geometry f)) harbour),
            attributes = (\<lambda>c. first_non_null (map (\<lambda>f. attributes f c) harbour)),
            infra_type = ''Harbour'', buffer_m = 0\<rparr>])
   \<and> (railways \<noteq> [] \<longrightarrow>
        railways_dissolved (create_buffers lib roads railways harbour) =
          [\<lparr>geometry =
              unary_union lib (map (\<lambda>f. buffer lib (to_crs lib (geometry f)) 50) railways),
            attributes = (\<lambda>c. first_non_null (map (\<lambda>f. attributes f c) railways)),
            infra_type = ''Railways'', buffer_m = 50\<rparr>])
   \<and> (roads \<noteq> [] \<longrightarrow>
        roads_dissolved (create_buffers lib roads railways harbour) =
          [\<lparr>geometry =
              unary_union lib (map (\<lambda>f. buffer lib (to_crs lib (geometry f)) 30) roads),
            attributes = (\<lambda>c. first_non_null (map (\<lambda>f. attributes f c) roads)),
            infra_type = ''Roads'', buffer_m = 30\<rparr>])"
proof (intro conjI impI)
  show "map geometry (harbour_buffer (create_buffers lib roads railways harbour)) =
     map (\<lambda>f. to_crs lib (geometry f)) harbour"
    by (simp add: create_buffers_fields harbour_buffer_of_def reproject_def comp_def)
next
  show "map geometry (railways_buffer (create_buffers lib roads railways harbour)) =
     map (\<lambda>f. buffer lib (to_crs lib (geometry f)) 50) railways"
    by (simp add: create_buffers_fields railways_buffer_of_def reproject_def comp_def
          BUFFER_RAILWAYS_def)
next
  show "map geometry (roads_buffer (create_buffers lib roads railways harbour)) =
     map (\<lambda>f. buffer lib (to_crs lib (geometry f)) 30) roads"
    by (simp add: create_buffers_fields roads_buffer_of_def reproject_def comp_def
          BUFFER_ROADS_def)
next
  show "harbour_dissolved (create_buffers lib roads railways harbour) =
       dissolve lib (harbour_buffer (create_buffers lib roads railways harbour))"
    by (simp add: create_buffers_fields)
next
  show "railways_dissolved (create_buffers lib roads railways harbour) =
       dissolve lib (railways_buffer (create_buffers lib roads railways harbour))"
    by (simp add: create_buffers_fields)
next
  show "roads_dissolved (create_buffers lib roads railways harbour) =
       dissolve lib (roads_buffer (create_buffers lib roads railways harbour))"
    by (simp add: create_buffers_fields)
next
  assume "harbour \<noteq> []"
  then have ne: "reproject lib harbour \<noteq> []"
    by (simp add: reproject_Nil)
  show "harbour_dissolved (create_buffers lib roads railways harbour) =
          [\<lparr>geometry = unary_union lib (map (\<lambda>f. to_crs lib (geometry f)) harbour),
            attributes = (\<lambda>c. first_non_null (map (\<lambda>f. attributes f c) harbour)),
            infra_type = ''Harbour'', buffer_m = 0\<rparr>]"
    by (simp only: create_buffers_fields harbour_dissolved_single [OF ne]
          reproject_geometry reproject_attributes)
next
  assume "railways \<noteq> []"
  then have ne: "reproject lib railways \<noteq> []"
    by (simp add: reproject_Nil)
  show "railways_dissolved (create_buffers lib roads railways harbour) =
          [\<lparr>geometry =
              unary_union lib (map (\<lambda>f. buffer lib (to_crs lib (geometry f)) 50) railways),
            attributes = (\<lambda>c. first_non_null (map (\<lambda>f. attributes f c) railways)),
            infra_type = ''Railways'', buffer_m = 50\<rparr>]"
    by (simp only: create_buffers_fields railways_dissolved_single [OF ne]
          reproject_buffer reproject_attributes)
next
  assume "roads \<noteq> []"
  then have ne: "reproject lib roads \<noteq> []"
    by (simp add: reproject_Nil)
  show "roads_dissolved (create_buffers lib roads railways harbour) =
          [\<lparr>geometry =
              unary_union lib (map (\<lambda>f. buffer lib (to_crs lib (geometry f)) 30) roads),
            attributes = (\<lambda>c. first_non_null (map (\<lambda>f. attributes f c) roads)),
            infra_type = ''Roads'', buffer_m = 30\<rparr>]"
    by (simp only: create_buffers_fields roads_dissolved_single [OF ne]
          reproject_buffer reproject_attributes)
qed

theorem harbour_identity_and_dissolve_witness:
  "map geometry (harbour_buffer (create_buffers line_lib lanes tracks quays))
     = [{101, 102}, {102, 103}]
   \<and> map geometry (railways_buffer (create_buffers line_lib lanes tracks quays))
     = [{50, 100, 150}, {57, 107, 157}]
   \<and> map geometry (roads_buffer (create_buffers line_lib lanes tracks quays)) = [{30, 60, 90}]
   \<and> map geometry (harbour_dissolved (create_buffers line_lib lanes tracks quays))
     = [{101, 102, 103}]
   \<and> map (\<lambda>z. attributes z ''name'')
       (harbour_dissolved (create_buffers line_lib lanes tracks quays)) = [Some ''south quay'']
   \<and> map infra_type (harbour_dissolved (create_buffers line_lib lanes tracks quays))
     = [''Harbour'']
   \<and> map buffer_m (harbour_dissolved (create_buffers line_lib lanes tracks quays)) = [0]
   \<and> map geometry (railways_dissolved (create_buffers line_lib lanes tracks quays))
     = [{50, 57, 100, 107, 150, 157}]
   \<and> map (\<lambda>z. attributes z ''name'')
       (railways_dissolved (create_buffers line_lib lanes tracks quays)) = [Some ''main line'']
   \<and> map buffer_m (railways_dissolved (create_buffers line_lib lanes tracks quays)) = [50]
   \<and> map geometry (roads_dissolved (create_buffers line_lib lanes tracks quays))
     = [{30, 60, 90}]
   \<and> map (\<lambda>z. attributes z ''name'')
       (roads_dissolved (create_buffers line_lib lanes tracks quays)) = [Some ''ring road'']
   \<and> map buffer_m (roads_dissolved (create_buffers line_lib lanes tracks quays)) = [30]"
proof -
  note th = harbour_identity_and_dissolve [of line_lib lanes tracks quays]
  have ne: "quays \<noteq> []" "tracks \<noteq> []" "lanes \<noteq> []"
    by (simp_all add: quays_def tracks_def lanes_def)
  from th have "map geometry (harbour_buffer (create_buffers line_lib lanes tracks quays)) =
     map (\<lambda>f. to_crs line_lib (geometry f)) quays"
    by blast
  then have a: "map geometry (harbour_buffer (create_buffers line_lib lanes tracks quays))
     = [{101, 102}, {102, 103}]"
    by (simp add: quays_def line_lib_fields)
  from th have "map geometry (railways_buffer (create_buffers line_lib lanes tracks quays)) =
     map (\<lambda>f. buffer line_lib (to_crs line_lib (geometry f)) 50) tracks"
    by blast
  then have b: "map geometry (railways_buffer (create_buffers line_lib lanes tracks quays))
     = [{50, 100, 150}, {57, 107, 157}]"
    by (auto simp add: tracks_def line_lib_fields)
  from th have "map geometry (roads_buffer (create_buffers line_lib lanes tracks quays)) =
     map (\<lambda>f. buffer line_lib (to_crs line_lib (geometry f)) 30) lanes"
    by blast
  then have c: "map geometry (roads_buffer (create_buffers line_lib lanes tracks quays))
     = [{30, 60, 90}]"
    by (auto simp add: lanes_def line_lib_fields)
  from th ne have h: "harbour_dissolved (create_buffers line_lib lanes tracks quays) =
          [\<lparr>geometry = unary_union line_lib (map (\<lambda>f. to_crs line_lib (geometry f)) quays),
            attributes = (\<lambda>c. first_non_null (map (\<lambda>f. attributes f c) quays)),
            infra_type = ''Harbour'', buffer_m = 0\<rparr>]"
    by blast
  have h1: "map geometry (harbour_dissolved (create_buffers line_lib lanes tracks quays))
     = [{101, 102, 103}]"
    unfolding h by (auto simp add: quays_def line_lib_fields)
  have h2: "map (\<lambda>z. attributes z ''name'')
       (harbour_dissolved (create_buffers line_lib lanes tracks quays)) = [Some ''south quay'']"
    unfolding h by (simp add: quays_def named_def)
  have h3: "map infra_type (harbour_dissolved (create_buffers line_lib lanes tracks quays))
     = [''Harbour'']"
    "map buffer_m (harbour_dissolved (create_buffers line_lib lanes tracks quays)) = [0]"
    unfolding h by simp_all
  from th ne have r: "railways_dissolved (create_buffers line_lib lanes tracks quays) =
          [\<lparr>geometry = unary_union line_lib
              (map (\<lambda>f. buffer line_lib (to_crs line_lib (geometry f)) 50) tracks),
            attributes = (\<lambda>c. first_non_null (map (\<lambda>f. attributes f c) tracks)),
            infra_type = ''Railways'', buffer_m = 50\<rparr>]"
    by blast
  have r1: "map geometry (railways_dissolved (create_buffers line_lib lanes tracks quays))
     = [{50, 57, 100, 107, 150, 157}]"
    unfolding r by (auto simp add: tracks_def line_lib_fields)
  have r2: "map (\<lambda>z. attributes z ''name'')
       (railways_dissolved (create_buffers line_lib lanes tracks quays)) = [Some ''main line'']"
    "map buffer_m (railways_dissolved (create_buffers line_lib lanes tracks quays)) = [50]"
    unfolding r by (simp_all add: tracks_def named_def)
  from th ne have o: "roads_dissolved (create_buffers line_lib lanes tracks quays) =
          [\<lparr>geometry = unary_union line_lib
              (map (\<lambda>f. buffer line_lib (to_crs line_lib (geometry f)) 30) lanes),
            attributes = (\<lambda>c. first_non_null (map (\<lambda>f. attributes f c) lanes)),
            infra_type = ''Roads'', buffer_m = 30\<rparr>]"
    by blast
  have o1: "map geometry (roads_dissolved (create_buffers line_lib lanes tracks quays))
     = [{30, 60, 90}]"
    unfolding o by (auto simp add: lanes_def line_lib_fields)
  have o2: "map (\<lambda>z. attributes z ''name'')
       (roads_dissolved (create_buffers line_lib lanes tracks quays)) = [Some ''ring road'']"
    "map buffer_m (roads_dissolved (create_buffers line_lib lanes tracks quays)) = [30]"
    unfolding o by (simp_all add: lanes_def named_def)
  show ?thesis
    using a b c h1 h2 h3 r1 r2 o1 o2 by (intro conjI) assumption+
qed

section \<open>The zone join\<close>

lemma map_left_find_points:
  "map left (find_points_in_buffer egms_data buffer_data name) =
     map left (sjoin_inner point_within egms_data buffer_data)"
  by (simp add: find_points_in_buffer_def Let_def comp_def)

lemma sjoin_inner_single:
  "map left (sjoin_inner pred egms_data [z]) =
     filter (\<lambda>p. pred (pt_geometry p) (geometry z)) egms_data"
  by (induction egms_data) (simp_all add: sjoin_inner_def)


lemma matches_of_point:
  "left ` set (map (\<lambda>(i, z). \<lparr>left = p, index_right = i, right_infra_type = infra_type z,
                       right_buffer_m = buffer_m z, right_attributes = attributes z,
                       infrastructure = None\<rparr>)
           (filter (\<lambda>(i, z). pred (pt_geometry p) (geometry z)) (enumerate 0 buffer_data)))
   = (if \<exists>z \<in> set buffer_data. pred (pt_geometry p) (geometry z) then {p} else {})"
proof -
  have "(\<exists>z \<in> set buffer_data. pred (pt_geometry p) (geometry z)) \<longleftrightarrow>
        (\<exists>iz \<in> set (enumerate 0 buffer_data). pred (pt_geometry p) (geometry (snd iz)))"
  proof -
    have "set buffer_data = snd ` set (enumerate 0 buffer_data)"
      by (metis map_snd_enumerate set_map)
    then show ?thesis
      by simp
  qed
  then show ?thesis
    by (auto simp: image_iff split: prod.splits) blast+
qed

lemma set_left_sjoin_inner:
  "set (map left (sjoin_inner pred egms_data buffer_data)) =
     {p \<in> set egms_data. \<exists>z \<in> set buffer_data. pred (pt_geometry p) (geometry z)}"
proof (induction egms_data)
  case Nil
  then show ?case by (simp add: sjoin_inner_def)
next
  case (Cons p ps)
  have step: "sjoin_inner pred (p # ps) buffer_data =
      map (\<lambda>(i, z). \<lparr>left = p, index_right = i, right_infra_type = infra_type z,
                       right_buffer_m = buffer_m z, right_attributes = attributes z,
                       infrastructure = None\<rparr>)
           (filter (\<lambda>(i, z). pred (pt_geometry p) (geometry z)) (enumerate 0 buffer_data))
      @ sjoin_inner pred ps buffer_data"
    by (simp add: sjoin_inner_def)
  show ?case
    using Cons.IH matches_of_point [of p pred buffer_data]
    by (simp only: step map_append set_append set_map) auto
qed

lemma unit_square_disjoint:
  "interior_pts (geometry square_zone) \<inter> boundary_pts (geometry square_zone) = {}"
  by (auto simp: square_zone_def unit_square_def)

text \<open>
  C6. Joined with the one zone of a class, the retained points are exactly the input
  points whose location lies in the interior of the zone's polygon, in their input order.
  A point on the boundary of the polygon (interior and boundary being disjoint) is not
  retained; the \<open>intersects\<close> predicate would have retained it. For a zone table of any
  number of rows, the retained points are the input points that lie in the interior of
  one of its polygons.
\<close>

theorem zone_join_is_strict_containment:
  "map left (find_points_in_buffer egms_data [z] name) =
     filter (\<lambda>p. pt_geometry p \<in> interior_pts (geometry z)) egms_data
   \<and> (interior_pts (geometry z) \<inter> boundary_pts (geometry z) = {}
        \<and> pt_geometry p \<in> boundary_pts (geometry z) \<longrightarrow>
        p \<notin> set (map left (find_points_in_buffer egms_data [z] name)))
   \<and> (p \<in> set egms_data \<and> pt_geometry p \<in> boundary_pts (geometry z) \<longrightarrow>
        p \<in> set (map left (sjoin_inner point_intersects egms_data [z])))
   \<and> set (map left (find_points_in_buffer egms_data buffer_data name)) =
       {q \<in> set egms_data. \<exists>b \<in> set buffer_data. pt_geometry q \<in> interior_pts (geometry b)}"
proof -
  have eq: "map left (find_points_in_buffer egms_data [z] name) =
     filter (\<lambda>p. pt_geometry p \<in> interior_pts (geometry z)) egms_data"
    by (simp add: map_left_find_points sjoin_inner_single point_within_def)
  have edge: "p \<notin> set (map left (find_points_in_buffer egms_data [z] name))"
    if "interior_pts (geometry z) \<inter> boundary_pts (geometry z) = {}
        \<and> pt_geometry p \<in> boundary_pts (geometry z)"
  proof -
    from that have "pt_geometry p \<notin> interior_pts (geometry z)"
      by auto
    then show ?thesis
      by (simp add: eq)
  qed
  have other: "p \<in> set (map left (sjoin_inner point_intersects egms_data [z]))"
    if "p \<in> set egms_data \<and> pt_geometry p \<in> boundary_pts (geometry z)"
    using that by (simp add: sjoin_inner_single point_intersects_def)
  have general: "set (map left (find_points_in_buffer egms_data buffer_data name)) =
       {q \<in> set egms_data. \<exists>b \<in> set buffer_data. pt_geometry q \<in> interior_pts (geometry b)}"
    by (simp only: map_left_find_points set_left_sjoin_inner point_within_def)
  show ?thesis
    using eq edge other general by blast
qed

theorem zone_join_is_strict_containment_witness:
  "map left (find_points_in_buffer [p_inside, p_edge, p_outside] [square_zone] ''Harbour'')
     = [p_inside]
   \<and> pt_geometry p_edge \<in> boundary_pts (geometry square_zone)
   \<and> p_edge \<notin> set (map left
        (find_points_in_buffer [p_inside, p_edge, p_outside] [square_zone] ''Harbour''))
   \<and> p_edge \<in> set (map left
        (sjoin_inner point_intersects [p_inside, p_edge, p_outside] [square_zone]))"
proof -
  have edge: "pt_geometry p_edge \<in> boundary_pts (geometry square_zone)"
    by (simp add: p_edge_def square_zone_def unit_square_def)
  have flt: "filter (\<lambda>p. pt_geometry p \<in> interior_pts (geometry square_zone))
               [p_inside, p_edge, p_outside] = [p_inside]"
    by (simp add: p_inside_def p_edge_def p_outside_def square_zone_def unit_square_def)
  have mem: "p_edge \<in> set [p_inside, p_edge, p_outside]"
    by simp
  note th = zone_join_is_strict_containment
              [where egms_data = "[p_inside, p_edge, p_outside]" and z = square_zone
                 and name = "''Harbour''" and p = p_edge and buffer_data = "[square_zone]"]
  from th have "map left
      (find_points_in_buffer [p_inside, p_edge, p_outside] [square_zone] ''Harbour'') =
      filter (\<lambda>p. pt_geometry p \<in> interior_pts (geometry square_zone))
        [p_inside, p_edge, p_outside]"
    by blast
  then have kept: "map left
      (find_points_in_buffer [p_inside, p_edge, p_outside] [square_zone] ''Harbour'') =
      [p_inside]"
    by (simp only: flt)
  from th unit_square_disjoint edge have dropped: "p_edge \<notin> set (map left
        (find_points_in_buffer [p_inside, p_edge, p_outside] [square_zone] ''Harbour''))"
    by blast
  from th mem edge have touching: "p_edge \<in> set (map left
        (sjoin_inner point_intersects [p_inside, p_edge, p_outside] [square_zone]))"
    by blast
  show ?thesis
    using kept edge dropped touching by blast
qed








end
